theory Spec2Isabelle
  imports Main "HOL-Library.Word"
begin

unbundle bit_operations_syntax

section \<open>Shared vocabulary: diagnostics and the effect trace\<close>

text \<open>
  The message macros of flashrom print at four levels. \<open>msg_perr\<close> is the level an
  operator always sees; the others are informational, debug and spew output.
\<close>

datatype level = Perr | Pinfo | Pdbg | Pspew

text \<open>
  One constructor per message text of \<open>pcidev.c\<close>, with the arguments the format string
  prints wherever they matter to what the message says.
\<close>

datatype diag =
    Header_type "8 word"
  | Unknown_header_type "8 word"
  | Requested_bar_type
  | Bar_MEM
  | Mem_space_disabled
  | Mem_layout string bool
  | Bar_unreachable
  | Bar_IO
  | Io_space_disabled
  | Io_unsupported_on_platform
  | Bar_ROM
  | Bar_type_unknown
  | Old_context_still_there
  | Filter_error string
  | Found_device
  | Detected_device "string option"
  | Untested_device
  | No_supported_device
  | Multiple_devices_use_bdf_filter
  | Invalid_bar int
  | Already_mapped
  | Open_failed
  | Mapping_failed
  | Read_failed
  | Write_failed
  | Invalid_value_read char

datatype sysfs_file = Enable_file | Resource_file int

datatype shutdown_fn = Pcidev_shutdown | Flashrom_pci_device_shutdown

text \<open>
  Everything a function does besides computing its result is appended, in program order,
  to a trace: messages, configuration-space reads through libpci, system calls on the
  sysfs files, accesses to mapped device memory, and shutdown registrations.
\<close>

datatype event =
    Msg level diag
  | Cfg_read_byte int
  | Cfg_read_word int
  | Cfg_read_long int
  | Register_shutdown shutdown_fn
  | Sys_open sysfs_file
  | Sys_read
  | Sys_write char
  | Sys_close
  | Sys_mmap "64 word"
  | Sys_munmap "64 word" "64 word"
  | Mmio_read8 "64 word"
  | Mmio_write8 "64 word" "8 word"
  | Mmio_read32 "64 word"
  | Mmio_write32 "64 word" "32 word"

section \<open>Enumerated devices and the constants of the PCI header\<close>

text \<open>
  Vendor and device identifier, shared by \<open>struct pci_dev\<close>, the two whitelist entry
  types and the device handle.
\<close>

record pci_id =
  vendor_id :: "16 word"
  device_id :: "16 word"

text \<open>
  \<open>struct pci_dev\<close> of libpci, as far as \<open>pcidev.c\<close> reads it: the locator, the identity,
  the declared BAR sizes \<open>size[6]\<close> (indexed 0..5; the only use checks the index first),
  and the configuration space as the three read primitives \<open>pci_read_byte\<close>,
  \<open>pci_read_word\<close> and \<open>pci_read_long\<close> see it, addressed by register offset.
\<close>

record pci_dev = pci_id +
  domain :: "16 word"
  bus :: "8 word"
  dev :: "8 word"
  func :: "8 word"
  bar_size :: "nat \<Rightarrow> 64 word"
  pci_read_byte :: "int \<Rightarrow> 8 word"
  pci_read_word :: "int \<Rightarrow> 16 word"
  pci_read_long :: "int \<Rightarrow> 32 word"

text \<open>
  Register offsets, flag bits and masks of libpci's \<open>pci/header.h\<close>. The header belongs
  to libpci, not to this repository; the values are those the PCI specification fixes.
  The masks are at the width of \<open>addr\<close> in \<open>pcidev_readbar\<close> (\<open>uint64_t\<close>).
\<close>

definition PCI_COMMAND :: int where "PCI_COMMAND = 0x04"
definition PCI_COMMAND_IO :: "16 word" where "PCI_COMMAND_IO = 0x1"
definition PCI_COMMAND_MEMORY :: "16 word" where "PCI_COMMAND_MEMORY = 0x2"
definition PCI_HEADER_TYPE :: int where "PCI_HEADER_TYPE = 0x0e"
definition PCI_HEADER_TYPE_NORMAL :: "8 word" where "PCI_HEADER_TYPE_NORMAL = 0"
definition PCI_HEADER_TYPE_BRIDGE :: "8 word" where "PCI_HEADER_TYPE_BRIDGE = 1"
definition PCI_HEADER_TYPE_CARDBUS :: "8 word" where "PCI_HEADER_TYPE_CARDBUS = 2"
definition PCI_BASE_ADDRESS_0 :: int where "PCI_BASE_ADDRESS_0 = 0x10"
definition PCI_BASE_ADDRESS_1 :: int where "PCI_BASE_ADDRESS_1 = 0x14"
definition PCI_BASE_ADDRESS_2 :: int where "PCI_BASE_ADDRESS_2 = 0x18"
definition PCI_BASE_ADDRESS_3 :: int where "PCI_BASE_ADDRESS_3 = 0x1c"
definition PCI_BASE_ADDRESS_4 :: int where "PCI_BASE_ADDRESS_4 = 0x20"
definition PCI_BASE_ADDRESS_5 :: int where "PCI_BASE_ADDRESS_5 = 0x24"
definition PCI_ROM_ADDRESS :: int where "PCI_ROM_ADDRESS = 0x30"
definition PCI_ROM_ADDRESS1 :: int where "PCI_ROM_ADDRESS1 = 0x38"
definition PCI_BASE_ADDRESS_SPACE :: "64 word" where "PCI_BASE_ADDRESS_SPACE = 0x01"
definition PCI_BASE_ADDRESS_SPACE_IO :: "64 word" where "PCI_BASE_ADDRESS_SPACE_IO = 0x01"
definition PCI_BASE_ADDRESS_MEM_MASK :: "64 word" where "PCI_BASE_ADDRESS_MEM_MASK = NOT 0x0f"
definition PCI_BASE_ADDRESS_IO_MASK :: "64 word" where "PCI_BASE_ADDRESS_IO_MASK = NOT 0x03"
definition PCI_ROM_ADDRESS_MASK :: "64 word" where "PCI_ROM_ADDRESS_MASK = NOT 0x7ff"

text \<open>
  What the build fixes: the size of \<open>uintptr_t\<close> in bytes, whether port I/O is
  available (\<open>__FLASHROM_HAVE_OUTB__\<close>), and the byte order in which a 32-bit access
  reads the bytes of mapped memory.
\<close>

record platform =
  sizeof_uintptr :: nat
  have_outb :: bool
  big_endian :: bool

section \<open>The BAR classifier: \<open>pcidev_readbar\<close>\<close>

datatype pci_bartype = TYPE_MEMBAR | TYPE_IOBAR | TYPE_ROMBAR | TYPE_UNKNOWN

text \<open>
  The inner test of the sanity-check switch, shared by the type-0 and type-1 branches:
  bit 0 of the raw register tells I/O space from memory space.
\<close>

definition mem_or_io :: "64 word \<Rightarrow> pci_bartype" where
  "mem_or_io addr =
     (if addr AND PCI_BASE_ADDRESS_SPACE = PCI_BASE_ADDRESS_SPACE_IO then TYPE_IOBAR
      else TYPE_MEMBAR)"

text \<open>
  The sanity-check switch over header type and register offset (lines 55-94). A case the
  inner switch does not list leaves \<open>bartype\<close> at its initial \<open>TYPE_UNKNOWN\<close>. Only the
  default branch prints a message.
\<close>

definition sanity_checks :: "8 word \<Rightarrow> int \<Rightarrow> 64 word \<Rightarrow> pci_bartype \<times> event list" where
  "sanity_checks headertype bar addr =
     (if headertype = PCI_HEADER_TYPE_NORMAL then
        (if bar = PCI_BASE_ADDRESS_0 \<or> bar = PCI_BASE_ADDRESS_1 \<or> bar = PCI_BASE_ADDRESS_2 \<or>
            bar = PCI_BASE_ADDRESS_3 \<or> bar = PCI_BASE_ADDRESS_4 \<or> bar = PCI_BASE_ADDRESS_5
         then (mem_or_io addr, [])
         else if bar = PCI_ROM_ADDRESS then (TYPE_ROMBAR, [])
         else (TYPE_UNKNOWN, []))
      else if headertype = PCI_HEADER_TYPE_BRIDGE then
        (if bar = PCI_BASE_ADDRESS_0 \<or> bar = PCI_BASE_ADDRESS_1 then (mem_or_io addr, [])
         else if bar = PCI_ROM_ADDRESS1 then (TYPE_ROMBAR, [])
         else (TYPE_UNKNOWN, []))
      else if headertype = PCI_HEADER_TYPE_CARDBUS then (TYPE_UNKNOWN, [])
      else (TYPE_UNKNOWN, [Msg Perr (Unknown_header_type headertype)]))"

text \<open>The cast \<open>(uintptr_t)addr\<close>: the low \<open>sizeof(uintptr_t)\<close> bytes of the 64-bit value.\<close>

definition to_uintptr :: "platform \<Rightarrow> 64 word \<Rightarrow> 64 word" where
  "to_uintptr pf addr = take_bit (8 * sizeof_uintptr pf) addr"

text \<open>The width text of the debug line: \<open>32\<close>, \<open>64\<close> or \<open>reserved\<close>.\<close>

definition width_text :: "64 word \<Rightarrow> string" where
  "width_text addr =
     (if addr AND 0x6 = 0x0 then ''32'' else if addr AND 0x6 = 0x4 then ''64'' else ''reserved'')"

text \<open>
  \<open>pcidev_readbar\<close> returns the address and the trace of what it did. The early
  \<open>return 0\<close> of the 64-bit branch is the only exit before the final cast.
\<close>

definition pcidev_readbar :: "platform \<Rightarrow> pci_dev \<Rightarrow> int \<Rightarrow> 64 word \<times> event list" where
  "pcidev_readbar pf d bar =
     (let headertype = pci_read_byte d PCI_HEADER_TYPE AND 0x7f;
          t0 = [Cfg_read_byte PCI_HEADER_TYPE, Msg Pspew (Header_type headertype)];
          addr = (ucast (pci_read_long d bar) :: 64 word);
          t1 = t0 @ [Cfg_read_long bar];
          (bartype, ts) = sanity_checks headertype bar addr;
          t2 = t1 @ ts;
          supported_cycles = pci_read_word d PCI_COMMAND;
          t3 = t2 @ [Cfg_read_word PCI_COMMAND, Msg Pdbg Requested_bar_type]
      in case bartype of
           TYPE_MEMBAR \<Rightarrow>
             (let t4 = t3 @ [Msg Pdbg Bar_MEM] @
                    (if supported_cycles AND PCI_COMMAND_MEMORY = 0
                     then [Msg Perr Mem_space_disabled] else []) @
                    [Msg Pdbg (Mem_layout (width_text addr) (addr AND 0x8 \<noteq> 0))]
              in if addr AND 0x6 = 0x4 then
                   (let upperaddr = pci_read_long d (bar + 4);
                        t5 = t4 @ [Cfg_read_long (bar + 4)]
                    in if upperaddr \<noteq> 0x00000000 then
                         (if sizeof_uintptr pf \<noteq> 8 then (0, t5 @ [Msg Perr Bar_unreachable])
                          else (to_uintptr pf
                                  ((addr OR push_bit 32 (ucast upperaddr))
                                     AND PCI_BASE_ADDRESS_MEM_MASK), t5))
                       else (to_uintptr pf (addr AND PCI_BASE_ADDRESS_MEM_MASK), t5))
                 else (to_uintptr pf (addr AND PCI_BASE_ADDRESS_MEM_MASK), t4))
         | TYPE_IOBAR \<Rightarrow>
             (to_uintptr pf (addr AND PCI_BASE_ADDRESS_IO_MASK),
              t3 @ [Msg Pdbg Bar_IO] @
                (if have_outb pf
                 then (if supported_cycles AND PCI_COMMAND_IO = 0
                       then [Msg Perr Io_space_disabled] else [])
                 else [Msg Perr Io_unsupported_on_platform]))
         | TYPE_ROMBAR \<Rightarrow>
             (to_uintptr pf (addr AND PCI_ROM_ADDRESS_MASK),
              t3 @ [Msg Pdbg Bar_ROM] @
                (if supported_cycles AND PCI_COMMAND_MEMORY = 0
                 then [Msg Perr Mem_space_disabled] else []))
         | TYPE_UNKNOWN \<Rightarrow> (to_uintptr pf addr, t3 @ [Msg Perr Bar_type_unknown]))"


section \<open>The process state the sysfs and MMIO paths act on\<close>

text \<open>
  Error numbers of \<open>errno.h\<close> (the Linux values; the code is written against Linux sysfs),
  the null pointer, and \<open>MAP_FAILED\<close>, which is \<open>(void *) -1\<close>.
\<close>

definition EFAULT :: int where "EFAULT = 14"
definition EINVAL :: int where "EINVAL = 22"
definition EALREADY :: int where "EALREADY = 114"
definition NULL :: "64 word" where "NULL = 0"
definition MAP_FAILED :: "64 word" where "MAP_FAILED = - 1"

text \<open>
  The state outside the handle: \<open>errno\<close>, the flag byte the kernel shows in the
  device's \<open>enable\<close> file, the bytes of the process address space (device memory once
  mapped), the libpci context \<open>pacc\<close> with its device list (\<open>None\<close> is the null
  pointer), and the trace.
\<close>

record world =
  errno :: int
  enable_flag :: char
  mem :: "64 word \<Rightarrow> 8 word"
  pacc :: "pci_dev list option"
  trace :: "event list"

text \<open>
  What the kernel answers to each system call an operation may issue: the value the
  call returns and the \<open>errno\<close> it sets when that value is the failure value \<open>-1\<close>
  (\<open>MAP_FAILED\<close> for \<open>mmap\<close>). A call that does not fail leaves \<open>errno\<close> alone, and so
  do \<open>close\<close> and the message routines.
\<close>

record syscalls =
  open_ret :: int
  open_errno :: int
  read_ret :: int
  read_errno :: int
  write_ret :: int
  write_errno :: int
  mmap_ret :: "64 word"
  mmap_errno :: int

definition emit :: "event \<Rightarrow> world \<Rightarrow> world" where
  "emit e w = w\<lparr>trace := trace w @ [e]\<rparr>"

definition sys_open :: "syscalls \<Rightarrow> sysfs_file \<Rightarrow> world \<Rightarrow> int \<times> world" where
  "sys_open sc f w =
     (open_ret sc,
      emit (Sys_open f) (w\<lparr>errno := (if open_ret sc = - 1 then open_errno sc else errno w)\<rparr>))"

text \<open>\<open>read(fd, &enable, 1)\<close>: when one byte is read it is the flag byte of the file.\<close>

definition sys_read :: "syscalls \<Rightarrow> world \<Rightarrow> int \<times> char \<times> world" where
  "sys_read sc w =
     (read_ret sc, enable_flag w,
      emit Sys_read (w\<lparr>errno := (if read_ret sc = - 1 then read_errno sc else errno w)\<rparr>))"

text \<open>\<open>write(fd, c, 1)\<close>: when one byte is written the file shows it from then on.\<close>

definition sys_write :: "syscalls \<Rightarrow> char \<Rightarrow> world \<Rightarrow> int \<times> world" where
  "sys_write sc c w =
     (write_ret sc,
      emit (Sys_write c)
        (w\<lparr>errno := (if write_ret sc = - 1 then write_errno sc else errno w),
           enable_flag := (if write_ret sc = 1 then c else enable_flag w)\<rparr>))"

definition sys_close :: "world \<Rightarrow> world" where
  "sys_close w = emit Sys_close w"

definition sys_mmap :: "syscalls \<Rightarrow> 64 word \<Rightarrow> world \<Rightarrow> 64 word \<times> world" where
  "sys_mmap sc len w =
     (mmap_ret sc,
      emit (Sys_mmap len)
        (w\<lparr>errno := (if mmap_ret sc = MAP_FAILED then mmap_errno sc else errno w)\<rparr>))"

section \<open>The device handle, mapping and enable state\<close>

text \<open>
  \<open>struct flashrom_pci_device\<close> (declared in \<open>programmer.h\<close>), by the fields \<open>pcidev.c\<close>
  uses. \<open>sysfs_path\<close> is kept as the four numbers the path
  \<open>/sys/bus/pci/devices/DDDD:BB:DD.F/\<close> is printed from, \<open>None\<close> for the null pointer.
  The handle's \<open>private\<close> pointer is the field \<open>private_h\<close> here. \<open>mmio\<close> is a pointer
  value and \<open>mmio_size\<close> a \<open>size_t\<close>, both 64 bits wide.
\<close>

record flashrom_pci_device = pci_id +
  name :: "string option"
  pci :: pci_dev
  sysfs_path :: "(16 word \<times> 8 word \<times> 8 word \<times> 8 word) option"
  enabled :: bool
  was_disabled :: bool
  mmio :: "64 word"
  mmio_size :: "64 word"
  private_h :: "64 word"
  private_data :: "64 word"

definition flashrom_pci_mmio_map ::
  "syscalls \<Rightarrow> flashrom_pci_device \<Rightarrow> int \<Rightarrow> world \<Rightarrow> int \<times> flashrom_pci_device \<times> world" where
  "flashrom_pci_mmio_map sc device bar w =
     (if bar < 0 \<or> bar > 5 then (EINVAL, device, emit (Msg Perr (Invalid_bar bar)) w)
      else if mmio device \<noteq> NULL then
        (if bar_size (pci device) (nat bar) \<noteq> mmio_size device
         then (EALREADY, device, emit (Msg Perr Already_mapped) w)
         else (0, device, w))
      else
        (let (fd, w1) = sys_open sc (Resource_file bar) w
         in if fd = - 1 then (errno w1, device, emit (Msg Perr Open_failed) w1)
            else
              (let device1 = device\<lparr>mmio_size := bar_size (pci device) (nat bar)\<rparr>;
                   (p, w2) = sys_mmap sc (mmio_size device1) w1;
                   device2 = device1\<lparr>mmio := p\<rparr>
               in if mmio device2 = MAP_FAILED then
                    (let w3 = sys_close (emit (Msg Perr Mapping_failed) w2)
                     in (errno w3, device2\<lparr>mmio_size := 0\<rparr>, w3))
                  else (0, device2, sys_close w2))))"

definition flashrom_pci_mmio_unmap ::
  "flashrom_pci_device \<Rightarrow> world \<Rightarrow> flashrom_pci_device \<times> world" where
  "flashrom_pci_mmio_unmap device w =
     (device\<lparr>mmio := NULL, mmio_size := 0\<rparr>,
      if mmio device \<noteq> NULL \<and> mmio_size device \<noteq> 0 \<and> mmio device \<noteq> MAP_FAILED
      then emit (Sys_munmap (mmio device) (mmio_size device)) w else w)"

definition flashrom_pci_device_enable ::
  "syscalls \<Rightarrow> flashrom_pci_device \<Rightarrow> world \<Rightarrow> int \<times> flashrom_pci_device \<times> world" where
  "flashrom_pci_device_enable sc device w =
     (if enabled device then (0, device, w)
      else
        (let (fd, w1) = sys_open sc Enable_file w
         in if fd = - 1 then (errno w1, device, emit (Msg Perr Open_failed) w1)
            else
              (let (ret, enable, w2) = sys_read sc w1
               in if ret \<noteq> 1 then
                    (let w3 = emit (Msg Perr Read_failed) (sys_close w2)
                     in (errno w3, device, w3))
                  else if enable = CHR ''0'' then
                    (let device1 = device\<lparr>was_disabled := True\<rparr>;
                         (ret1, w3) = sys_write sc (CHR ''1'') w2
                     in if ret1 \<noteq> 1 then
                          (let w4 = emit (Msg Perr Write_failed) (sys_close w3)
                           in (errno w4, device1, w4))
                        else (0, device1\<lparr>enabled := True\<rparr>, sys_close w3))
                  else if enable \<noteq> CHR ''1'' then
                    (EINVAL, device, emit (Msg Perr (Invalid_value_read enable)) (sys_close w2))
                  else (0, device\<lparr>enabled := True\<rparr>, sys_close w2))))"

definition flashrom_pci_device_disable ::
  "syscalls \<Rightarrow> flashrom_pci_device \<Rightarrow> world \<Rightarrow> int \<times> flashrom_pci_device \<times> world" where
  "flashrom_pci_device_disable sc device w =
     (if \<not> enabled device \<or> \<not> was_disabled device then (0, device, w)
      else
        (let (fd, w1) = sys_open sc Enable_file w
         in if fd = - 1 then (errno w1, device, emit (Msg Perr Open_failed) w1)
            else
              (let (ret, enable, w2) = sys_read sc w1
               in if ret \<noteq> 1 then
                    (let w3 = emit (Msg Perr Read_failed) (sys_close w2)
                     in (errno w3, device, w3))
                  else if enable = CHR ''1'' then
                    (let (ret1, w3) = sys_write sc (CHR ''0'') w2
                     in if ret1 \<noteq> 1 then
                          (let w4 = emit (Msg Perr Write_failed) (sys_close w3)
                           in (errno w4, device, w4))
                        else (0, device\<lparr>enabled := False\<rparr>, sys_close w3))
                  else if enable \<noteq> CHR ''0'' then
                    (EINVAL, device, emit (Msg Perr (Invalid_value_read enable)) (sys_close w2))
                  else (0, device\<lparr>enabled := False\<rparr>, sys_close w2))))"

section \<open>The MMIO accessors\<close>

text \<open>
  \<open>address\<close> is an \<open>off_t\<close> and \<open>mmio_size\<close> a \<open>size_t\<close>, both 64 bits wide; the comparison
  \<open>address >= device->mmio_size\<close> converts the offset to the unsigned type, which is the
  order of \<open>64 word\<close>. \<open>device->mmio[address]\<close> is the byte at pointer plus offset.
  A function returning \<open>-1\<close> through \<open>uint8_t\<close> or \<open>uint32_t\<close> returns the word \<open>- 1\<close>.
\<close>

definition flashrom_pci_mmio_byte_read ::
  "flashrom_pci_device \<Rightarrow> 64 word \<Rightarrow> world \<Rightarrow> 8 word \<times> world" where
  "flashrom_pci_mmio_byte_read device address w =
     (if address \<ge> mmio_size device then (- 1, w\<lparr>errno := EFAULT\<rparr>)
      else (mem w (mmio device + address), emit (Mmio_read8 (mmio device + address)) w))"

definition flashrom_pci_mmio_byte_write ::
  "flashrom_pci_device \<Rightarrow> 64 word \<Rightarrow> 8 word \<Rightarrow> world \<Rightarrow> world" where
  "flashrom_pci_mmio_byte_write device address value w =
     (if address \<ge> mmio_size device then w\<lparr>errno := EFAULT\<rparr>
      else emit (Mmio_write8 (mmio device + address) value)
             (w\<lparr>mem := (mem w)(mmio device + address := value)\<rparr>))"

definition flashrom_pci_mmio_byte_mask ::
  "flashrom_pci_device \<Rightarrow> 64 word \<Rightarrow> 8 word \<Rightarrow> 8 word \<Rightarrow> world \<Rightarrow> world" where
  "flashrom_pci_mmio_byte_mask device address value msk w =
     (if address \<ge> mmio_size device then w\<lparr>errno := EFAULT\<rparr>
      else
        (let value1 = value AND msk;
             temp = mem w (mmio device + address) AND NOT msk;
             w1 = emit (Mmio_read8 (mmio device + address)) w;
             temp1 = temp OR (value1 AND msk)
         in emit (Mmio_write8 (mmio device + address) temp1)
              (w1\<lparr>mem := (mem w1)(mmio device + address := temp1)\<rparr>)))"

text \<open>
  A 32-bit access \<open>mmio[0]\<close> through the \<open>uint32_t\<close> pointer reads or writes the four bytes
  from the pointer on, in the platform's byte order.
\<close>

definition load32 :: "platform \<Rightarrow> (64 word \<Rightarrow> 8 word) \<Rightarrow> 64 word \<Rightarrow> 32 word" where
  "load32 pf m p =
     (if big_endian pf
      then push_bit 24 (ucast (m p)) OR push_bit 16 (ucast (m (p + 1))) OR
           push_bit 8 (ucast (m (p + 2))) OR ucast (m (p + 3))
      else push_bit 24 (ucast (m (p + 3))) OR push_bit 16 (ucast (m (p + 2))) OR
           push_bit 8 (ucast (m (p + 1))) OR ucast (m p))"

definition store32 ::
  "platform \<Rightarrow> (64 word \<Rightarrow> 8 word) \<Rightarrow> 64 word \<Rightarrow> 32 word \<Rightarrow> (64 word \<Rightarrow> 8 word)" where
  "store32 pf m p v =
     (if big_endian pf
      then m(p := ucast (drop_bit 24 v), p + 1 := ucast (drop_bit 16 v),
             p + 2 := ucast (drop_bit 8 v), p + 3 := ucast v)
      else m(p := ucast v, p + 1 := ucast (drop_bit 8 v),
             p + 2 := ucast (drop_bit 16 v), p + 3 := ucast (drop_bit 24 v)))"

definition flashrom_pci_mmio_long_read ::
  "platform \<Rightarrow> flashrom_pci_device \<Rightarrow> 64 word \<Rightarrow> world \<Rightarrow> 32 word \<times> world" where
  "flashrom_pci_mmio_long_read pf device address w =
     (let mmio_p = mmio device + address
      in if address \<ge> mmio_size device \<or> address AND 0x03 \<noteq> 0
         then (- 1, w\<lparr>errno := EFAULT\<rparr>)
         else (load32 pf (mem w) mmio_p, emit (Mmio_read32 mmio_p) w))"

definition flashrom_pci_mmio_long_write ::
  "platform \<Rightarrow> flashrom_pci_device \<Rightarrow> 64 word \<Rightarrow> 32 word \<Rightarrow> world \<Rightarrow> world" where
  "flashrom_pci_mmio_long_write pf device address value w =
     (let mmio_p = mmio device + address
      in if address \<ge> mmio_size device \<or> address AND 0x03 \<noteq> 0
         then w\<lparr>errno := EFAULT\<rparr>
         else emit (Mmio_write32 mmio_p value) (w\<lparr>mem := store32 pf (mem w) mmio_p value\<rparr>))"

definition flashrom_pci_mmio_long_mask ::
  "platform \<Rightarrow> flashrom_pci_device \<Rightarrow> 64 word \<Rightarrow> 32 word \<Rightarrow> 32 word \<Rightarrow> world \<Rightarrow> world" where
  "flashrom_pci_mmio_long_mask pf device address value msk w =
     (let mmio_p = mmio device + address
      in if address \<ge> mmio_size device \<or> address AND 0x03 \<noteq> 0
         then w\<lparr>errno := EFAULT\<rparr>
         else
           (let value1 = value AND msk;
                temp = load32 pf (mem w) mmio_p AND NOT msk;
                w1 = emit (Mmio_read32 mmio_p) w;
                temp1 = temp OR (value1 AND msk)
            in emit (Mmio_write32 mmio_p temp1) (w1\<lparr>mem := store32 pf (mem w1) mmio_p temp1\<rparr>)))"

section \<open>The device resolver\<close>

text \<open>
  The support-status tag of a whitelist entry (\<open>enum test_state\<close> of \<open>flash.h\<close>); the
  resolver only asks whether it is \<open>NT\<close>, not tested.
\<close>

datatype test_state = OK | NT | BAD | DEP | NA

record match_id = pci_id +
  status :: test_state

text \<open>
  \<open>struct dev_entry\<close>: a whitelist array of these ends at the first entry whose
  \<open>device_name\<close> is the null pointer. \<open>struct flashrom_pci_match\<close>: an array of these ends
  at the first entry whose \<open>vendor_id\<close> is 0; its \<open>private\<close> pointer is \<open>private_v\<close> here.
  An array is the list of its entries; a list that holds no terminating entry stands for
  the array whose terminator follows its last entry.
\<close>

record dev_entry = match_id +
  vendor_name :: "string option"
  device_name :: "string option"

record flashrom_pci_match = match_id +
  private_v :: "64 word"

text \<open>
  libpci's location filter, which is outside the repository, as section 4.2 of the
  specification describes it: a field that is given must equal the device's, a field
  that is not given (negative) does not constrain. \<open>pci_filter_init\<close> gives no field.
\<close>

record pci_filter =
  filter_domain :: int
  filter_bus :: int
  filter_slot :: int
  filter_func :: int

definition pci_filter_init :: pci_filter where
  "pci_filter_init =
     \<lparr>filter_domain = - 1, filter_bus = - 1, filter_slot = - 1, filter_func = - 1\<rparr>"

definition pci_filter_match :: "pci_filter \<Rightarrow> pci_dev \<Rightarrow> bool" where
  "pci_filter_match f d =
     (\<not> ((filter_domain f \<ge> 0 \<and> filter_domain f \<noteq> uint (domain d)) \<or>
         (filter_bus f \<ge> 0 \<and> filter_bus f \<noteq> uint (bus d)) \<or>
         (filter_slot f \<ge> 0 \<and> filter_slot f \<noteq> uint (dev d)) \<or>
         (filter_func f \<ge> 0 \<and> filter_func f \<noteq> uint (func d))))"

text \<open>
  What the collaborators answer during one resolution: the devices \<open>pci_scan_bus\<close>
  enumerates, the return value of \<open>register_shutdown\<close>, the \<open>pci\<close> programmer parameter
  (\<open>None\<close> when the user gave none), libpci's parser of that parameter (an error message
  or none, and the filter as the parser leaves it), and libpci's name lookup.
\<close>

record pci_env =
  scan_bus :: "pci_dev list"
  register_shutdown :: "shutdown_fn \<Rightarrow> int"
  extract_programmer_param_pci :: "string option"
  pci_filter_parse_slot :: "pci_filter \<Rightarrow> string \<Rightarrow> string option \<times> pci_filter"
  pci_lookup_name :: "16 word \<Rightarrow> 16 word \<Rightarrow> string option"

definition pci_init_common :: "pci_env \<Rightarrow> world \<Rightarrow> int \<times> world" where
  "pci_init_common env w =
     (if pacc w \<noteq> None then (1, emit (Msg Perr Old_context_still_there) w)
      else
        (let w1 = w\<lparr>pacc := Some []\<rparr>;
             w2 = emit (Register_shutdown Pcidev_shutdown) w1
         in if register_shutdown env Pcidev_shutdown \<noteq> 0 then (1, w2)
            else (0, w2\<lparr>pacc := Some (scan_bus env)\<rparr>)))"

text \<open>\<open>pacc->devices\<close>, the list the loops walk.\<close>

definition devices :: "world \<Rightarrow> pci_dev list" where
  "devices w = (case pacc w of None \<Rightarrow> [] | Some ds \<Rightarrow> ds)"

text \<open>
  The filter both resolvers build: \<open>pci_filter_init\<close>, then the parse of the \<open>pci\<close>
  parameter when there is one. The first component is the parser's error message.
\<close>

definition filter_by_bdf :: "pci_env \<Rightarrow> string option \<times> pci_filter" where
  "filter_by_bdf env =
     (case extract_programmer_param_pci env of
        None \<Rightarrow> (None, pci_filter_init)
      | Some pcidev_bdf \<Rightarrow> pci_filter_parse_slot env pci_filter_init pcidev_bdf)"

text \<open>
  The inner loop of \<open>pcidev_init\<close> (lines 223-229): the first entry before the terminator
  with the device's identifiers, or none.
\<close>

fun check_supported :: "dev_entry list \<Rightarrow> pci_dev \<Rightarrow> dev_entry option" where
  "check_supported [] d = None"
| "check_supported (e # es) d =
     (if device_name e = None then None
      else if vendor_id d = vendor_id e \<and> device_id d = device_id e then Some e
      else check_supported es d)"

text \<open>
  The outer loop of \<open>pcidev_init\<close> (lines 220-249) over the remaining devices, carrying
  \<open>found_dev\<close>, \<open>found\<close> and the trace. \<open>found\<close> is a C \<open>int\<close> that is incremented at most
  once per device; it is an \<open>int\<close> here.
\<close>

fun pcidev_init_loop ::
  "platform \<Rightarrow> pci_filter \<Rightarrow> dev_entry list \<Rightarrow> int \<Rightarrow> pci_dev list \<Rightarrow>
   pci_dev option \<times> int \<times> event list \<Rightarrow> pci_dev option \<times> int \<times> event list" where
  "pcidev_init_loop pf flt devs bar [] acc = acc"
| "pcidev_init_loop pf flt devs bar (d # ds) (found_dev, found, t) =
     (if pci_filter_match flt d then
        (case check_supported devs d of
           None \<Rightarrow> pcidev_init_loop pf flt devs bar ds (found_dev, found, t)
         | Some e \<Rightarrow>
             (let t1 = t @ [Msg Pdbg Found_device] @
                    (if status e = NT then [Msg Pinfo Untested_device] else []);
                  (addr, ts) = pcidev_readbar pf d bar
              in if addr \<noteq> 0
                 then pcidev_init_loop pf flt devs bar ds (Some d, found + 1, t1 @ ts)
                 else pcidev_init_loop pf flt devs bar ds (found_dev, found, t1 @ ts)))
      else pcidev_init_loop pf flt devs bar ds (found_dev, found, t))"

definition pcidev_init ::
  "platform \<Rightarrow> pci_env \<Rightarrow> dev_entry list \<Rightarrow> int \<Rightarrow> world \<Rightarrow> pci_dev option \<times> world" where
  "pcidev_init pf env devs bar w =
     (let (rc, w1) = pci_init_common env w
      in if rc \<noteq> 0 then (None, w1)
         else
           (case filter_by_bdf env of
              (Some msg, flt) \<Rightarrow> (None, emit (Msg Perr (Filter_error msg)) w1)
            | (None, flt) \<Rightarrow>
                (let (found_dev, found, t) =
                       pcidev_init_loop pf flt devs bar (devices w1) (None, 0, trace w1);
                     w2 = w1\<lparr>trace := t\<rparr>
                 in if found = 0 then (None, emit (Msg Perr No_supported_device) w2)
                    else if found > 1
                    then (None, emit (Msg Perr Multiple_devices_use_bdf_filter) w2)
                    else (found_dev, w2))))"

text \<open>The inner loop of \<open>flashrom_pci_init\<close> (lines 604-610).\<close>

fun check_match :: "flashrom_pci_match list \<Rightarrow> pci_dev \<Rightarrow> flashrom_pci_match option" where
  "check_match [] d = None"
| "check_match (m # ms) d =
     (if vendor_id m = 0 then None
      else if vendor_id d = vendor_id m \<and> device_id d = device_id m then Some m
      else check_match ms d)"

text \<open>
  The outer loop of \<open>flashrom_pci_init\<close> (lines 602-636), carrying \<open>found_dev\<close>,
  \<open>found_match\<close>, \<open>name\<close>, \<open>found\<close> and the trace.
\<close>

fun flashrom_pci_init_loop ::
  "pci_env \<Rightarrow> pci_filter \<Rightarrow> flashrom_pci_match list \<Rightarrow> pci_dev list \<Rightarrow>
   pci_dev option \<times> flashrom_pci_match option \<times> string option \<times> int \<times> event list \<Rightarrow>
   pci_dev option \<times> flashrom_pci_match option \<times> string option \<times> int \<times> event list" where
  "flashrom_pci_init_loop env flt matches [] acc = acc"
| "flashrom_pci_init_loop env flt matches (d # ds) (found_dev, found_match, nm, found, t) =
     (if pci_filter_match flt d then
        (case check_match matches d of
           None \<Rightarrow>
             flashrom_pci_init_loop env flt matches ds (found_dev, found_match, nm, found, t)
         | Some m \<Rightarrow>
             (let nm1 = pci_lookup_name env (vendor_id d) (device_id d);
                  t1 = t @ [Msg Pinfo (Detected_device nm1)] @
                    (if status m = NT then [Msg Pinfo Untested_device] else [])
              in flashrom_pci_init_loop env flt matches ds
                   (Some d, Some m, nm1, found + 1, t1)))
      else flashrom_pci_init_loop env flt matches ds (found_dev, found_match, nm, found, t))"

text \<open>
  What a call of \<open>flashrom_pci_init\<close> comes to: it returns the null pointer or a handle,
  or it passes a null \<open>name\<close> to \<open>strdup\<close>, which is undefined. \<open>calloc\<close> and \<open>strdup\<close>
  are taken to succeed on what they are given; the code does not check them.
\<close>

datatype init_result = Returns "flashrom_pci_device option" | Undefined_strdup_NULL

definition flashrom_pci_init ::
  "pci_env \<Rightarrow> syscalls \<Rightarrow> flashrom_pci_match list \<Rightarrow> world \<Rightarrow> init_result \<times> world" where
  "flashrom_pci_init env sc matches w =
     (let (rc, w1) = pci_init_common env w
      in if rc \<noteq> 0 then (Returns None, w1)
         else
           (case filter_by_bdf env of
              (Some msg, flt) \<Rightarrow> (Returns None, emit (Msg Perr (Filter_error msg)) w1)
            | (None, flt) \<Rightarrow>
                (case flashrom_pci_init_loop env flt matches (devices w1)
                        (None, None, None, 0, trace w1) of
                   (found_dev, found_match, nm, found, t) \<Rightarrow>
                     (let w2 = w1\<lparr>trace := t\<rparr>
                      in if found = 0 then (Returns None, emit (Msg Perr No_supported_device) w2)
                         else if found > 1
                         then (Returns None, emit (Msg Perr Multiple_devices_use_bdf_filter) w2)
                         else
                           (case (found_dev, found_match, nm) of
                              (Some d, Some m, Some n) \<Rightarrow>
                                (let device =
                                       \<lparr>vendor_id = vendor_id d, device_id = device_id d,
                                        name = Some n, pci = d,
                                        sysfs_path = Some (domain d, bus d, dev d, func d),
                                        enabled = False, was_disabled = False,
                                        mmio = NULL, mmio_size = 0,
                                        private_h = private_v m, private_data = 0\<rparr>;
                                     w3 = emit (Register_shutdown Flashrom_pci_device_shutdown) w2;
                                     (rc1, device1, w4) = flashrom_pci_device_enable sc device w3
                                 in if rc1 \<noteq> 0 then (Returns None, w4)
                                    else (Returns (Some device1), w4))
                            | _ \<Rightarrow> (Undefined_strdup_NULL, w2))))))"

section \<open>The resolution policy in the specification's words\<close>

text \<open>
  A device is on a whitelist when an entry before the terminator carries its vendor and
  device identifiers.
\<close>

definition on_whitelist :: "dev_entry list \<Rightarrow> pci_dev \<Rightarrow> bool" where
  "on_whitelist devs d =
     (\<exists>e \<in> set (takeWhile (\<lambda>e. device_name e \<noteq> None) devs).
        vendor_id e = vendor_id d \<and> device_id e = device_id d)"

definition on_match_list :: "flashrom_pci_match list \<Rightarrow> pci_dev \<Rightarrow> bool" where
  "on_match_list matches d =
     (\<exists>m \<in> set (takeWhile (\<lambda>m. vendor_id m \<noteq> 0) matches).
        vendor_id m = vendor_id d \<and> device_id m = device_id d)"

text \<open>
  The survivors of a resolution: the enumerated devices, in order, that pass the
  location filter and the identity check and, for \<open>pcidev_init\<close>, whose classified BAR
  address is not zero.
\<close>

definition survivors_bar ::
  "platform \<Rightarrow> pci_filter \<Rightarrow> dev_entry list \<Rightarrow> int \<Rightarrow> pci_dev list \<Rightarrow> pci_dev list" where
  "survivors_bar pf flt devs bar ds =
     filter (\<lambda>d. pci_filter_match flt d \<and> on_whitelist devs d \<and>
                 fst (pcidev_readbar pf d bar) \<noteq> 0) ds"

definition survivors :: "pci_filter \<Rightarrow> flashrom_pci_match list \<Rightarrow> pci_dev list \<Rightarrow> pci_dev list" where
  "survivors flt matches ds =
     filter (\<lambda>d. pci_filter_match flt d \<and> on_match_list matches d) ds"

text \<open>
  The handle \<open>flashrom_pci_init\<close> has built for a device, its match entry and its name
  when it comes to enable the device.
\<close>

definition resolved_handle :: "pci_dev \<Rightarrow> flashrom_pci_match \<Rightarrow> string \<Rightarrow> flashrom_pci_device" where
  "resolved_handle d m n =
     \<lparr>vendor_id = vendor_id d, device_id = device_id d, name = Some n, pci = d,
      sysfs_path = Some (domain d, bus d, dev d, func d), enabled = False,
      was_disabled = False, mmio = NULL, mmio_size = 0, private_h = private_v m,
      private_data = 0\<rparr>"

section \<open>The BAR classes in the specification's words\<close>

text \<open>
  The register at an offset is a memory BAR when the offset is one of the six
  base-address slots of a type-0 header or one of the two of a type-1 header, and bit 0
  of the raw value is clear.
\<close>

definition is_base_address_slot :: "8 word \<Rightarrow> int \<Rightarrow> bool" where
  "is_base_address_slot headertype bar =
     ((headertype = 0 \<and> bar \<in> {0x10, 0x14, 0x18, 0x1c, 0x20, 0x24}) \<or>
      (headertype = 1 \<and> bar \<in> {0x10, 0x14}))"

definition is_rom_slot :: "8 word \<Rightarrow> int \<Rightarrow> bool" where
  "is_rom_slot headertype bar =
     ((headertype = 0 \<and> bar = 0x30) \<or> (headertype = 1 \<and> bar = 0x38))"

definition is_memory_bar :: "pci_dev \<Rightarrow> int \<Rightarrow> bool" where
  "is_memory_bar d bar =
     (is_base_address_slot (pci_read_byte d 0x0e AND 0x7f) bar \<and>
      \<not> bit (pci_read_long d bar) 0)"

section \<open>Concrete inputs\<close>

text \<open>A 64-bit little-endian build with port I/O, and a 32-bit one.\<close>

definition platform64 :: platform where
  "platform64 = \<lparr>sizeof_uintptr = 8, have_outb = True, big_endian = False\<rparr>"

definition platform32 :: platform where
  "platform32 = \<lparr>sizeof_uintptr = 4, have_outb = True, big_endian = False\<rparr>"

text \<open>
  A type-0 device at 0000:01:00.0 whose BAR 0 is a 64-bit memory BAR at
  \<open>0x1f0000000\<close> of 256 bytes, with memory decoding enabled.
\<close>

definition card :: pci_dev where
  "card =
     \<lparr>vendor_id = 0x1002, device_id = 0x6798, domain = 0, bus = 1, dev = 0, func = 0,
      bar_size = (\<lambda>i. if i = 0 then 0x100 else 0),
      pci_read_byte = (\<lambda>reg. 0),
      pci_read_word = (\<lambda>reg. if reg = 0x04 then 0x2 else 0),
      pci_read_long = (\<lambda>reg. if reg = 0x10 then 0xf0000004 else if reg = 0x14 then 0x1 else 0)\<rparr>"

text \<open>The same BAR with a zero upper register.\<close>

definition card_low :: pci_dev where
  "card_low = card\<lparr>pci_read_long := (\<lambda>reg. if reg = 0x10 then 0xf0000004 else 0)\<rparr>"

text \<open>A CardBus bridge (header type 2) whose register at offset \<open>0x10\<close> reads \<open>0xffff0000\<close>.\<close>

definition cardbus_bridge :: pci_dev where
  "cardbus_bridge =
     \<lparr>vendor_id = 0x104c, device_id = 0xac56, domain = 0, bus = 2, dev = 3, func = 0,
      bar_size = (\<lambda>i. 0),
      pci_read_byte = (\<lambda>reg. if reg = 0x0e then 0x02 else 0),
      pci_read_word = (\<lambda>reg. 0),
      pci_read_long = (\<lambda>reg. if reg = 0x10 then 0xffff0000 else 0)\<rparr>"

text \<open>A fresh handle for \<open>card\<close>, as \<open>calloc\<close> and the assignments of \<open>flashrom_pci_init\<close> leave it.\<close>

definition fresh_handle :: flashrom_pci_device where
  "fresh_handle =
     \<lparr>vendor_id = 0x1002, device_id = 0x6798, name = Some ''Tahiti'', pci = card,
      sysfs_path = Some (0, 1, 0, 0), enabled = False, was_disabled = False,
      mmio = NULL, mmio_size = 0, private_h = 0, private_data = 0\<rparr>"

text \<open>The same handle with BAR 0 mapped at \<open>0x7f0000001000\<close>.\<close>

definition mapped_handle :: flashrom_pci_device where
  "mapped_handle = fresh_handle\<lparr>mmio := 0x7f0000001000, mmio_size := 0x100\<rparr>"

text \<open>
  A process state with no libpci context, a disabled device, and every byte of memory
  holding \<open>0xa0\<close>.
\<close>

definition world0 :: world where
  "world0 = \<lparr>errno = 0, enable_flag = CHR ''0'', mem = (\<lambda>p. 0xa0), pacc = None, trace = []\<rparr>"

text \<open>
  A kernel that serves every call; one that refuses to open the file (\<open>EACCES\<close>); one that
  refuses the mapping (\<open>ENOMEM\<close>).
\<close>

definition kernel_ok :: syscalls where
  "kernel_ok =
     \<lparr>open_ret = 3, open_errno = 0, read_ret = 1, read_errno = 0, write_ret = 1,
      write_errno = 0, mmap_ret = 0x7f0000001000, mmap_errno = 0\<rparr>"

definition kernel_open_fails :: syscalls where
  "kernel_open_fails = kernel_ok\<lparr>open_ret := - 1, open_errno := 13\<rparr>"

definition kernel_mmap_fails :: syscalls where
  "kernel_mmap_fails = kernel_ok\<lparr>mmap_ret := MAP_FAILED, mmap_errno := 12\<rparr>"

text \<open>
  A bus with the one card, no \<open>pci\<close> parameter, a registry that accepts, and a names
  database that knows the card; and the two whitelists that list it.
\<close>

definition bus_one :: pci_env where
  "bus_one =
     \<lparr>scan_bus = [card], register_shutdown = (\<lambda>fn. 0), extract_programmer_param_pci = None,
      pci_filter_parse_slot = (\<lambda>flt s. (None, flt)),
      pci_lookup_name = (\<lambda>v d. Some ''Tahiti'')\<rparr>"

definition whitelist :: "dev_entry list" where
  "whitelist =
     [\<lparr>vendor_id = 0x1002, device_id = 0x6798, status = OK, vendor_name = Some ''AMD'',
       device_name = Some ''Tahiti''\<rparr>,
      \<lparr>vendor_id = 0, device_id = 0, status = OK, vendor_name = None, device_name = None\<rparr>]"

definition match_list :: "flashrom_pci_match list" where
  "match_list =
     [\<lparr>vendor_id = 0x1002, device_id = 0x6798, status = OK, private_v = 0\<rparr>,
      \<lparr>vendor_id = 0, device_id = 0, status = OK, private_v = 0\<rparr>]"

text \<open>The same state with every byte of memory holding \<open>0xff\<close>.\<close>

definition all_ones_world :: world where
  "all_ones_world = world0\<lparr>mem := (\<lambda>p. 0xff)\<rparr>"

section \<open>Unfolding rules and word arithmetic\<close>

lemmas pci_header_defs =
  PCI_COMMAND_def PCI_COMMAND_IO_def PCI_COMMAND_MEMORY_def PCI_HEADER_TYPE_def
  PCI_HEADER_TYPE_NORMAL_def PCI_HEADER_TYPE_BRIDGE_def PCI_HEADER_TYPE_CARDBUS_def
  PCI_BASE_ADDRESS_0_def PCI_BASE_ADDRESS_1_def PCI_BASE_ADDRESS_2_def
  PCI_BASE_ADDRESS_3_def PCI_BASE_ADDRESS_4_def PCI_BASE_ADDRESS_5_def
  PCI_ROM_ADDRESS_def PCI_ROM_ADDRESS1_def PCI_BASE_ADDRESS_SPACE_def
  PCI_BASE_ADDRESS_SPACE_IO_def PCI_BASE_ADDRESS_MEM_MASK_def PCI_BASE_ADDRESS_IO_MASK_def
  PCI_ROM_ADDRESS_MASK_def

lemmas sys_defs = emit_def sys_open_def sys_read_def sys_write_def sys_close_def sys_mmap_def

lemmas errno_defs = EFAULT_def EINVAL_def EALREADY_def NULL_def MAP_FAILED_def

text \<open>
  The alignment test \<open>address & 0x03\<close> on the bits of the offset is the test that the
  signed offset is not a multiple of 4.
\<close>

lemma take_bit_2_sint: "take_bit 2 (sint (a :: 64 word)) = take_bit 2 (uint a)"
  by (simp add: sint_uint take_bit_signed_take_bit)

lemma dvd_sint_iff_dvd_uint: "(4 dvd sint (a :: 64 word)) = (4 dvd uint a)"
proof -
  have "(2 ^ 2 dvd sint a) = (take_bit 2 (sint a) = 0)"
    by (simp only: take_bit_eq_0_iff)
  also have "\<dots> = (take_bit 2 (uint a) = 0)"
    by (simp only: take_bit_2_sint)
  also have "\<dots> = (2 ^ 2 dvd uint a)"
    by (simp only: take_bit_eq_0_iff)
  finally show ?thesis by simp
qed

lemma misaligned_iff: "(a AND 0x03 \<noteq> 0) = (\<not> 4 dvd sint (a :: 64 word))"
  using and_mask_dvd [of 2 a] by (simp add: dvd_sint_iff_dvd_uint mask_eq_exp_minus_1)

lemma aligned_iff: "(4 dvd sint (a :: 64 word)) = (a AND 0x03 = 0)"
  using misaligned_iff [of a] by blast

text \<open>A 32-bit store followed by a 32-bit load at the same place gives the value back.\<close>

lemma store32_load32: "load32 pf (store32 pf m p v) p = v"
  apply (simp add: load32_def store32_def)
  apply (rule bit_word_eqI)
  apply (auto simp add: bit_simps)
  subgoal for n by (cases "16 \<le> n") auto
  subgoal for n by (cases "24 \<le> n"; cases "16 \<le> n"; simp)
  done

section \<open>The MMIO accessors: bounds and alignment\<close>

text \<open>
  Claim C5. An MMIO access whose address is at or beyond the recorded \<open>mmio_size\<close>, or,
  for the three 32-bit operations, whose address is not a multiple of 4, fails: the
  state it leaves is the state it found with \<open>errno\<close> set to \<open>EFAULT\<close>, so memory is
  as it was and the trace has gained no read or write of device memory.
\<close>

theorem mmio_access_checked:
  "(address \<ge> mmio_size device \<longrightarrow>
      snd (flashrom_pci_mmio_byte_read device address w) = w\<lparr>errno := EFAULT\<rparr> \<and>
      flashrom_pci_mmio_byte_write device address val w = w\<lparr>errno := EFAULT\<rparr> \<and>
      flashrom_pci_mmio_byte_mask device address val msk w = w\<lparr>errno := EFAULT\<rparr>) \<and>
   (address \<ge> mmio_size device \<or> \<not> 4 dvd sint address \<longrightarrow>
      snd (flashrom_pci_mmio_long_read pf device address w) = w\<lparr>errno := EFAULT\<rparr> \<and>
      flashrom_pci_mmio_long_write pf device address lval w = w\<lparr>errno := EFAULT\<rparr> \<and>
      flashrom_pci_mmio_long_mask pf device address lval lmsk w = w\<lparr>errno := EFAULT\<rparr>)"
  by (simp add: flashrom_pci_mmio_byte_read_def flashrom_pci_mmio_byte_write_def
      flashrom_pci_mmio_byte_mask_def flashrom_pci_mmio_long_read_def
      flashrom_pci_mmio_long_write_def flashrom_pci_mmio_long_mask_def misaligned_iff [symmetric])

text \<open>
  On the handle mapped with 256 bytes: byte accesses at offset 256 and 32-bit accesses
  at offset 6 fail, and the failed state has the memory and the empty trace of the
  state before.
\<close>

theorem mmio_access_checked_witness:
  "snd (flashrom_pci_mmio_byte_read mapped_handle 0x100 world0) = world0\<lparr>errno := EFAULT\<rparr> \<and>
   flashrom_pci_mmio_byte_write mapped_handle 0x100 0x55 world0 = world0\<lparr>errno := EFAULT\<rparr> \<and>
   flashrom_pci_mmio_byte_mask mapped_handle 0x100 0xff 0x0f world0 = world0\<lparr>errno := EFAULT\<rparr> \<and>
   snd (flashrom_pci_mmio_long_read platform64 mapped_handle 0x6 world0) =
     world0\<lparr>errno := EFAULT\<rparr> \<and>
   flashrom_pci_mmio_long_write platform64 mapped_handle 0x6 0x55 world0 =
     world0\<lparr>errno := EFAULT\<rparr> \<and>
   flashrom_pci_mmio_long_mask platform64 mapped_handle 0x6 0xff 0x0f world0 =
     world0\<lparr>errno := EFAULT\<rparr> \<and>
   mem (world0\<lparr>errno := EFAULT\<rparr>) = mem world0 \<and> trace (world0\<lparr>errno := EFAULT\<rparr>) = []"
proof -
  have a: "mmio_size mapped_handle \<le> 0x100"
    by (simp add: mapped_handle_def)
  have b: "\<not> 4 dvd sint (0x6 :: 64 word)"
    by simp
  show ?thesis
    using mmio_access_checked [where device = mapped_handle and address = "0x100" and
        w = world0 and val = "0x55"]
      mmio_access_checked [where device = mapped_handle and address = "0x100" and
        w = world0 and val = "0xff" and msk = "0x0f"]
      mmio_access_checked [where device = mapped_handle and address = "0x6" and
        w = world0 and pf = platform64 and lval = "0x55"]
      mmio_access_checked [where device = mapped_handle and address = "0x6" and
        w = world0 and pf = platform64 and lval = "0xff" and lmsk = "0x0f"]
      a b
    by (simp add: world0_def)
qed

section \<open>The MMIO accessors: masked updates\<close>

text \<open>
  Claim C6. An in-range masked byte update, and an in-range masked 32-bit update at an
  address that is a multiple of 4, store \<open>(current AND NOT mask) OR (value AND mask)\<close>,
  and the trace gains exactly one read and then one write of that location. After the
  32-bit update the location reads back as the combined value.
\<close>

theorem masked_update:
  "(address < mmio_size device \<longrightarrow>
      flashrom_pci_mmio_byte_mask device address val msk w =
        w\<lparr>mem := (mem w)(mmio device + address :=
                 (mem w (mmio device + address) AND NOT msk) OR (val AND msk)),
          trace := trace w @
            [Mmio_read8 (mmio device + address),
             Mmio_write8 (mmio device + address)
               ((mem w (mmio device + address) AND NOT msk) OR (val AND msk))]\<rparr>) \<and>
   (address < mmio_size device \<and> 4 dvd sint address \<longrightarrow>
      flashrom_pci_mmio_long_mask pf device address lval lmsk w =
        w\<lparr>mem := store32 pf (mem w) (mmio device + address)
                 ((load32 pf (mem w) (mmio device + address) AND NOT lmsk) OR (lval AND lmsk)),
          trace := trace w @
            [Mmio_read32 (mmio device + address),
             Mmio_write32 (mmio device + address)
               ((load32 pf (mem w) (mmio device + address) AND NOT lmsk) OR (lval AND lmsk))]\<rparr> \<and>
      load32 pf (mem (flashrom_pci_mmio_long_mask pf device address lval lmsk w))
          (mmio device + address) =
        (load32 pf (mem w) (mmio device + address) AND NOT lmsk) OR (lval AND lmsk))"
proof -
  have al: "4 dvd sint address \<Longrightarrow> address AND 0x03 = 0"
    using misaligned_iff [of address] by simp
  have b: "address < mmio_size device \<Longrightarrow>
      flashrom_pci_mmio_byte_mask device address val msk w =
        w\<lparr>mem := (mem w)(mmio device + address :=
                 (mem w (mmio device + address) AND NOT msk) OR (val AND msk)),
          trace := trace w @
            [Mmio_read8 (mmio device + address),
             Mmio_write8 (mmio device + address)
               ((mem w (mmio device + address) AND NOT msk) OR (val AND msk))]\<rparr>"
    by (simp add: flashrom_pci_mmio_byte_mask_def emit_def Let_def not_le [symmetric]
        and.assoc)
  have l: "address < mmio_size device \<Longrightarrow> 4 dvd sint address \<Longrightarrow>
      flashrom_pci_mmio_long_mask pf device address lval lmsk w =
        w\<lparr>mem := store32 pf (mem w) (mmio device + address)
                 ((load32 pf (mem w) (mmio device + address) AND NOT lmsk) OR (lval AND lmsk)),
          trace := trace w @
            [Mmio_read32 (mmio device + address),
             Mmio_write32 (mmio device + address)
               ((load32 pf (mem w) (mmio device + address) AND NOT lmsk) OR (lval AND lmsk))]\<rparr>"
    using al by (simp add: flashrom_pci_mmio_long_mask_def emit_def Let_def not_le [symmetric]
        and.assoc)
  show ?thesis
    using b l by (simp add: store32_load32)
qed

text \<open>
  Value \<open>0xff\<close> under mask \<open>0x0f\<close> onto a byte holding \<open>0xa0\<close> stores \<open>0xaf\<close>, with one
  read and one write; likewise for the 32-bit word \<open>0xa0a0a0a0\<close>.
\<close>

theorem masked_update_witness:
  "mem (flashrom_pci_mmio_byte_mask mapped_handle 0x10 0xff 0x0f world0) 0x7f0000001010 = 0xaf \<and>
   trace (flashrom_pci_mmio_byte_mask mapped_handle 0x10 0xff 0x0f world0) =
     [Mmio_read8 0x7f0000001010, Mmio_write8 0x7f0000001010 0xaf] \<and>
   trace (flashrom_pci_mmio_long_mask platform64 mapped_handle 0x10 0xff 0x0f world0) =
     [Mmio_read32 0x7f0000001010, Mmio_write32 0x7f0000001010 0xa0a0a0af] \<and>
   load32 platform64 (mem (flashrom_pci_mmio_long_mask platform64 mapped_handle 0x10 0xff 0x0f world0))
     0x7f0000001010 = 0xa0a0a0af"
proof -
  have a: "(0x10 :: 64 word) < mmio_size mapped_handle"
    by (simp add: mapped_handle_def)
  have b: "4 dvd sint (0x10 :: 64 word)"
    by simp
  have p: "mmio mapped_handle + 0x10 = 0x7f0000001010"
    by (simp add: mapped_handle_def)
  have m: "mem world0 = (\<lambda>p. 0xa0)" and t: "trace world0 = []"
    by (simp_all add: world0_def)
  have c: "load32 platform64 (\<lambda>p. 0xa0) 0x7f0000001010 = 0xa0a0a0a0"
    by (simp add: load32_def platform64_def)
  show ?thesis
    using masked_update [where device = mapped_handle and address = "0x10" and w = world0
        and val = "0xff" and msk = "0x0f" and pf = platform64 and lval = "0xff" and lmsk = "0x0f"]
      a b
    by (simp add: p m t c store32_load32)
qed

section \<open>The MMIO accessors: what a failed read returns\<close>

text \<open>
  Claim C10. When the bounds or alignment check fails, \<open>flashrom_pci_mmio_byte_read\<close>
  returns \<open>0xff\<close> and \<open>flashrom_pci_mmio_long_read\<close> returns \<open>0xffffffff\<close>, with \<open>errno\<close>
  set to \<open>EFAULT\<close>. A successful read of a location holding all-ones returns the same
  value and leaves \<open>errno\<close> as it was, so only \<open>errno\<close> tells the two apart.
\<close>

theorem failed_read_returns_all_ones:
  "(address \<ge> mmio_size device \<longrightarrow>
      fst (flashrom_pci_mmio_byte_read device address w) = 0xff \<and>
      errno (snd (flashrom_pci_mmio_byte_read device address w)) = EFAULT) \<and>
   (address \<ge> mmio_size device \<or> \<not> 4 dvd sint address \<longrightarrow>
      fst (flashrom_pci_mmio_long_read pf device address w) = 0xffffffff \<and>
      errno (snd (flashrom_pci_mmio_long_read pf device address w)) = EFAULT) \<and>
   (address < mmio_size device \<and> mem w (mmio device + address) = 0xff \<longrightarrow>
      fst (flashrom_pci_mmio_byte_read device address w) = 0xff \<and>
      errno (snd (flashrom_pci_mmio_byte_read device address w)) = errno w) \<and>
   (address < mmio_size device \<and> 4 dvd sint address \<and>
    load32 pf (mem w) (mmio device + address) = 0xffffffff \<longrightarrow>
      fst (flashrom_pci_mmio_long_read pf device address w) = 0xffffffff \<and>
      errno (snd (flashrom_pci_mmio_long_read pf device address w)) = errno w)"
  by (simp add: flashrom_pci_mmio_byte_read_def flashrom_pci_mmio_long_read_def
      aligned_iff emit_def Let_def not_le [symmetric])

text \<open>
  With all of memory holding \<open>0xff\<close> and \<open>errno\<close> 0 beforehand: the reads at offsets 256
  and 6 fail, the reads at offset 16 succeed, all four return all-ones, and \<open>errno\<close>
  is 14 after the failed ones and 0 after the others.
\<close>

theorem failed_read_returns_all_ones_witness:
  "fst (flashrom_pci_mmio_byte_read mapped_handle 0x100 all_ones_world) = 0xff \<and>
   errno (snd (flashrom_pci_mmio_byte_read mapped_handle 0x100 all_ones_world)) = 14 \<and>
   fst (flashrom_pci_mmio_byte_read mapped_handle 0x10 all_ones_world) = 0xff \<and>
   errno (snd (flashrom_pci_mmio_byte_read mapped_handle 0x10 all_ones_world)) = 0 \<and>
   fst (flashrom_pci_mmio_long_read platform64 mapped_handle 0x6 all_ones_world) = 0xffffffff \<and>
   errno (snd (flashrom_pci_mmio_long_read platform64 mapped_handle 0x6 all_ones_world)) = 14 \<and>
   fst (flashrom_pci_mmio_long_read platform64 mapped_handle 0x10 all_ones_world) = 0xffffffff \<and>
   errno (snd (flashrom_pci_mmio_long_read platform64 mapped_handle 0x10 all_ones_world)) = 0"
proof -
  have a: "mmio_size mapped_handle \<le> 0x100" "(0x10 :: 64 word) < mmio_size mapped_handle"
    by (simp_all add: mapped_handle_def)
  have b: "\<not> 4 dvd sint (0x6 :: 64 word)" "4 dvd sint (0x10 :: 64 word)"
    by simp_all
  have m: "mem all_ones_world (mmio mapped_handle + 0x10) = 0xff"
    "load32 platform64 (mem all_ones_world) (mmio mapped_handle + 0x10) = 0xffffffff"
    "errno all_ones_world = 0"
    by (simp_all add: all_ones_world_def world0_def load32_def)
  show ?thesis
    using failed_read_returns_all_ones [where device = mapped_handle and address = "0x100"
        and w = all_ones_world]
      failed_read_returns_all_ones [where device = mapped_handle and address = "0x10"
        and w = all_ones_world and pf = platform64]
      failed_read_returns_all_ones [where device = mapped_handle and address = "0x6"
        and w = all_ones_world and pf = platform64]
      a b m
    by (simp add: EFAULT_def)
qed

section \<open>Mapping a BAR\<close>

text \<open>
  Claim C8. \<open>flashrom_pci_mmio_map\<close> answers a BAR index outside 0-5 with \<open>EINVAL\<close>,
  having done nothing but print the message (no system call is in the trace). On a
  handle whose \<open>mmio\<close> is set it returns 0 and changes nothing when the recorded size
  equals the declared size of that BAR, and returns \<open>EALREADY\<close> with the handle unchanged
  when the sizes differ. Both error codes differ from the success value 0.
\<close>

theorem mmio_map_guards:
  "(bar < 0 \<or> bar > 5 \<longrightarrow>
      flashrom_pci_mmio_map sc device bar w =
        (EINVAL, device, w\<lparr>trace := trace w @ [Msg Perr (Invalid_bar bar)]\<rparr>)) \<and>
   (0 \<le> bar \<and> bar \<le> 5 \<and> mmio device \<noteq> NULL \<and>
    mmio_size device = bar_size (pci device) (nat bar) \<longrightarrow>
      flashrom_pci_mmio_map sc device bar w = (0, device, w)) \<and>
   (0 \<le> bar \<and> bar \<le> 5 \<and> mmio device \<noteq> NULL \<and>
    mmio_size device \<noteq> bar_size (pci device) (nat bar) \<longrightarrow>
      flashrom_pci_mmio_map sc device bar w =
        (EALREADY, device, w\<lparr>trace := trace w @ [Msg Perr Already_mapped]\<rparr>)) \<and>
   EINVAL \<noteq> 0 \<and> EALREADY \<noteq> 0"
  by (auto simp add: flashrom_pci_mmio_map_def emit_def EINVAL_def EALREADY_def)

text \<open>
  On the handle mapped with the 256 bytes of BAR 0: index 6 and index -1 give 22, index 0
  gives 0 and no effect, index 1 (declared size 0) gives 114.
\<close>

theorem mmio_map_guards_witness:
  "flashrom_pci_mmio_map kernel_ok mapped_handle 6 world0 =
     (22, mapped_handle, world0\<lparr>trace := [Msg Perr (Invalid_bar 6)]\<rparr>) \<and>
   flashrom_pci_mmio_map kernel_ok mapped_handle (- 1) world0 =
     (22, mapped_handle, world0\<lparr>trace := [Msg Perr (Invalid_bar (- 1))]\<rparr>) \<and>
   flashrom_pci_mmio_map kernel_ok mapped_handle 0 world0 = (0, mapped_handle, world0) \<and>
   flashrom_pci_mmio_map kernel_ok mapped_handle 1 world0 =
     (114, mapped_handle, world0\<lparr>trace := [Msg Perr Already_mapped]\<rparr>)"
proof -
  have a: "mmio mapped_handle \<noteq> NULL"
    "mmio_size mapped_handle = bar_size (pci mapped_handle) (nat 0)"
    "mmio_size mapped_handle \<noteq> bar_size (pci mapped_handle) (nat 1)"
    by (simp_all add: mapped_handle_def fresh_handle_def card_def NULL_def)
  have t: "trace world0 = []"
    by (simp add: world0_def)
  show ?thesis
    using mmio_map_guards [where bar = 6 and sc = kernel_ok and device = mapped_handle
        and w = world0]
      mmio_map_guards [where bar = "- 1" and sc = kernel_ok and device = mapped_handle
        and w = world0]
      mmio_map_guards [where bar = 0 and sc = kernel_ok and device = mapped_handle
        and w = world0]
      mmio_map_guards [where bar = 1 and sc = kernel_ok and device = mapped_handle
        and w = world0]
      a t
    by (simp add: EINVAL_def EALREADY_def)
qed

text \<open>
  Claim C4, evaluated. When the kernel refuses the mapping of BAR 0 on the fresh, unmapped
  handle, \<open>flashrom_pci_mmio_map\<close> returns the kernel's error 12 and resets \<open>mmio_size\<close>
  to 0, but the handle's \<open>mmio\<close> field, null before, holds \<open>MAP_FAILED\<close> afterwards, which
  is not null. When the kernel refuses to open the resource file the call returns the
  error 13 and the handle is as it was. A later call on the handle left by the failed
  mapping takes it for mapped and answers \<open>EALREADY\<close>.
\<close>

theorem failed_mmap_leaves_MAP_FAILED:
  "flashrom_pci_mmio_map kernel_mmap_fails fresh_handle 0 world0 =
     (12, fresh_handle\<lparr>mmio := MAP_FAILED, mmio_size := 0\<rparr>,
      world0\<lparr>errno := 12,
        trace := [Sys_open (Resource_file 0), Sys_mmap 0x100, Msg Perr Mapping_failed, Sys_close]\<rparr>) \<and>
   mmio fresh_handle = NULL \<and> MAP_FAILED \<noteq> NULL \<and>
   flashrom_pci_mmio_map kernel_open_fails fresh_handle 0 world0 =
     (13, fresh_handle,
      world0\<lparr>errno := 13, trace := [Sys_open (Resource_file 0), Msg Perr Open_failed]\<rparr>) \<and>
   fst (flashrom_pci_mmio_map kernel_ok
          (fresh_handle\<lparr>mmio := MAP_FAILED, mmio_size := 0\<rparr>) 0 world0) = EALREADY"
  by (simp add: flashrom_pci_mmio_map_def kernel_mmap_fails_def kernel_open_fails_def
      kernel_ok_def fresh_handle_def card_def world0_def sys_defs errno_defs Let_def)

section \<open>Enabling and disabling the device\<close>

text \<open>
  Claim C7. On a handle not yet enabled whose enable file reads \<open>0\<close>, with the system
  calls succeeding, \<open>flashrom_pci_device_enable\<close> writes \<open>1\<close> and records \<open>was_disabled\<close>,
  and \<open>flashrom_pci_device_disable\<close> after it writes \<open>0\<close> back. On a fresh handle whose
  enable file reads \<open>1\<close>, enable writes nothing and a later disable, in whatever state,
  does nothing at all. Enable on an enabled handle, and disable on a handle that is not
  both enabled and originally disabled, return 0 without any effect.
\<close>

theorem enable_disable_round_trip:
  "(\<not> enabled device \<and> open_ret sc \<noteq> - 1 \<and> read_ret sc = 1 \<and> enable_flag w = CHR ''0'' \<and>
    write_ret sc = 1 \<and> open_ret sc' \<noteq> - 1 \<and> read_ret sc' = 1 \<and> write_ret sc' = 1 \<longrightarrow>
      flashrom_pci_device_enable sc device w =
        (0, device\<lparr>enabled := True, was_disabled := True\<rparr>,
         w\<lparr>enable_flag := CHR ''1'',
           trace := trace w @ [Sys_open Enable_file, Sys_read, Sys_write CHR ''1'', Sys_close]\<rparr>) \<and>
      flashrom_pci_device_disable sc' (device\<lparr>enabled := True, was_disabled := True\<rparr>)
          (w\<lparr>enable_flag := CHR ''1'',
             trace := trace w @ [Sys_open Enable_file, Sys_read, Sys_write CHR ''1'', Sys_close]\<rparr>) =
        (0, device\<lparr>enabled := False, was_disabled := True\<rparr>,
         w\<lparr>enable_flag := CHR ''0'',
           trace := trace w @ [Sys_open Enable_file, Sys_read, Sys_write CHR ''1'', Sys_close,
                               Sys_open Enable_file, Sys_read, Sys_write CHR ''0'', Sys_close]\<rparr>)) \<and>
   (\<not> enabled device \<and> \<not> was_disabled device \<and> open_ret sc \<noteq> - 1 \<and> read_ret sc = 1 \<and>
    enable_flag w = CHR ''1'' \<longrightarrow>
      flashrom_pci_device_enable sc device w =
        (0, device\<lparr>enabled := True\<rparr>,
         w\<lparr>trace := trace w @ [Sys_open Enable_file, Sys_read, Sys_close]\<rparr>) \<and>
      flashrom_pci_device_disable sc' (device\<lparr>enabled := True\<rparr>) w' =
        (0, device\<lparr>enabled := True\<rparr>, w')) \<and>
   (enabled device \<longrightarrow> flashrom_pci_device_enable sc device w = (0, device, w)) \<and>
   (\<not> (enabled device \<and> was_disabled device) \<longrightarrow>
      flashrom_pci_device_disable sc device w = (0, device, w))"
proof -
  have en0: "\<not> enabled device \<Longrightarrow> open_ret sc \<noteq> - 1 \<Longrightarrow> read_ret sc = 1 \<Longrightarrow>
      enable_flag w = CHR ''0'' \<Longrightarrow> write_ret sc = 1 \<Longrightarrow>
      flashrom_pci_device_enable sc device w =
        (0, device\<lparr>enabled := True, was_disabled := True\<rparr>,
         w\<lparr>enable_flag := CHR ''1'',
           trace := trace w @ [Sys_open Enable_file, Sys_read, Sys_write CHR ''1'', Sys_close]\<rparr>)"
    by (simp add: flashrom_pci_device_enable_def sys_defs Let_def)
  have dis1: "open_ret sc' \<noteq> - 1 \<Longrightarrow> read_ret sc' = 1 \<Longrightarrow> write_ret sc' = 1 \<Longrightarrow>
      flashrom_pci_device_disable sc' (device\<lparr>enabled := True, was_disabled := True\<rparr>)
          (w\<lparr>enable_flag := CHR ''1'',
             trace := trace w @ [Sys_open Enable_file, Sys_read, Sys_write CHR ''1'', Sys_close]\<rparr>) =
        (0, device\<lparr>enabled := False, was_disabled := True\<rparr>,
         w\<lparr>enable_flag := CHR ''0'',
           trace := trace w @ [Sys_open Enable_file, Sys_read, Sys_write CHR ''1'', Sys_close,
                               Sys_open Enable_file, Sys_read, Sys_write CHR ''0'', Sys_close]\<rparr>)"
    by (simp add: flashrom_pci_device_disable_def sys_defs Let_def)
  have en1: "\<not> enabled device \<Longrightarrow> open_ret sc \<noteq> - 1 \<Longrightarrow> read_ret sc = 1 \<Longrightarrow>
      enable_flag w = CHR ''1'' \<Longrightarrow>
      flashrom_pci_device_enable sc device w =
        (0, device\<lparr>enabled := True\<rparr>,
         w\<lparr>trace := trace w @ [Sys_open Enable_file, Sys_read, Sys_close]\<rparr>)"
    by (simp add: flashrom_pci_device_enable_def sys_defs Let_def)
  have dis0: "\<not> was_disabled device \<Longrightarrow>
      flashrom_pci_device_disable sc' (device\<lparr>enabled := True\<rparr>) w' =
        (0, device\<lparr>enabled := True\<rparr>, w')"
    by (simp add: flashrom_pci_device_disable_def)
  have noop_en: "enabled device \<Longrightarrow> flashrom_pci_device_enable sc device w = (0, device, w)"
    by (simp add: flashrom_pci_device_enable_def)
  have noop_dis: "\<not> (enabled device \<and> was_disabled device) \<Longrightarrow>
      flashrom_pci_device_disable sc device w = (0, device, w)"
    by (auto simp add: flashrom_pci_device_disable_def)
  show ?thesis
    using en0 dis1 en1 dis0 noop_en noop_dis by blast
qed

text \<open>
  The fresh handle and a kernel that serves every call: from flag \<open>0\<close> the round trip
  writes \<open>1\<close> and then \<open>0\<close>; from flag \<open>1\<close> nothing is written by either call.
\<close>

theorem enable_disable_round_trip_witness:
  "flashrom_pci_device_enable kernel_ok fresh_handle world0 =
     (0, fresh_handle\<lparr>enabled := True, was_disabled := True\<rparr>,
      world0\<lparr>enable_flag := CHR ''1'',
        trace := [Sys_open Enable_file, Sys_read, Sys_write CHR ''1'', Sys_close]\<rparr>) \<and>
   flashrom_pci_device_disable kernel_ok (fresh_handle\<lparr>enabled := True, was_disabled := True\<rparr>)
       (world0\<lparr>enable_flag := CHR ''1'',
          trace := [Sys_open Enable_file, Sys_read, Sys_write CHR ''1'', Sys_close]\<rparr>) =
     (0, fresh_handle\<lparr>enabled := False, was_disabled := True\<rparr>,
      world0\<lparr>enable_flag := CHR ''0'',
        trace := [Sys_open Enable_file, Sys_read, Sys_write CHR ''1'', Sys_close,
                  Sys_open Enable_file, Sys_read, Sys_write CHR ''0'', Sys_close]\<rparr>) \<and>
   flashrom_pci_device_enable kernel_ok fresh_handle (world0\<lparr>enable_flag := CHR ''1''\<rparr>) =
     (0, fresh_handle\<lparr>enabled := True\<rparr>,
      world0\<lparr>enable_flag := CHR ''1'', trace := [Sys_open Enable_file, Sys_read, Sys_close]\<rparr>) \<and>
   flashrom_pci_device_disable kernel_ok (fresh_handle\<lparr>enabled := True\<rparr>)
       (world0\<lparr>enable_flag := CHR ''1'', trace := [Sys_open Enable_file, Sys_read, Sys_close]\<rparr>) =
     (0, fresh_handle\<lparr>enabled := True\<rparr>,
      world0\<lparr>enable_flag := CHR ''1'', trace := [Sys_open Enable_file, Sys_read, Sys_close]\<rparr>) \<and>
   flashrom_pci_device_enable kernel_ok (fresh_handle\<lparr>enabled := True\<rparr>) world0 =
     (0, fresh_handle\<lparr>enabled := True\<rparr>, world0) \<and>
   flashrom_pci_device_disable kernel_ok fresh_handle world0 = (0, fresh_handle, world0)"
proof -
  have h: "\<not> enabled fresh_handle" "\<not> was_disabled fresh_handle"
    by (simp_all add: fresh_handle_def)
  have k: "open_ret kernel_ok \<noteq> - 1" "read_ret kernel_ok = 1" "write_ret kernel_ok = 1"
    by (simp_all add: kernel_ok_def)
  have w: "enable_flag world0 = CHR ''0''" "trace world0 = []"
    by (simp_all add: world0_def)
  show ?thesis
    using enable_disable_round_trip [where device = fresh_handle and sc = kernel_ok and
        sc' = kernel_ok and w = world0]
      enable_disable_round_trip [where device = fresh_handle and sc = kernel_ok and
        sc' = kernel_ok and w = "world0\<lparr>enable_flag := CHR ''1''\<rparr>" and
        w' = "world0\<lparr>enable_flag := CHR ''1'',
                trace := [Sys_open Enable_file, Sys_read, Sys_close]\<rparr>"]
      enable_disable_round_trip [where device = "fresh_handle\<lparr>enabled := True\<rparr>" and
        sc = kernel_ok and w = world0]
      h k w
    by simp
qed

section \<open>The BAR classifier\<close>

text \<open>
  Facts about the 32-bit raw register once it is widened to the 64-bit \<open>addr\<close>, and
  what the classifier computes on a 64-bit memory BAR and on an unknown BAR.
\<close>

lemma ucast_and_6: "(ucast (r :: 32 word) :: 64 word) AND 0x6 = ucast (r AND 0x6)"
  by (rule bit_word_eqI) (auto simp add: bit_simps dest: bit_imp_le_length)

lemma ucast_space_io: "((ucast (r :: 32 word) :: 64 word) AND 0x01 = 0x01) = bit r 0"
  using bit_iff_and_drop_bit_eq_1 [of "ucast r :: 64 word" 0] by (simp add: bit_simps)

lemma m32: "(0xFFFFFFFF :: 64 word) = mask 32"
  by (simp add: mask_eq_exp_minus_1)

lemma low_fits: "4 \<le> n \<Longrightarrow>
   take_bit (8 * n) ((ucast (r :: 32 word) :: 64 word) AND NOT 0x0f) = ucast (r AND NOT 0x0f)"
  apply (rule bit_word_eqI)
  apply (auto simp add: bit_simps dest: bit_imp_le_length)
  done

lemma merged_hi: "drop_bit 32 (((ucast (r :: 32 word) :: 64 word) OR push_bit 32 (ucast (u :: 32 word))) AND NOT 0x0f) = ucast u"
  apply (rule bit_word_eqI)
  apply (auto simp add: bit_simps m32 dest: bit_imp_le_length)
  done

lemma merged_lo: "(ucast (((ucast (r :: 32 word) :: 64 word) OR push_bit 32 (ucast (u :: 32 word))) AND NOT 0x0f) :: 32 word) = r AND NOT 0x0f"
  apply (rule bit_word_eqI)
  apply (auto simp add: bit_simps dest: bit_imp_le_length)
  done

lemma to_uintptr_64: "sizeof_uintptr pf = 8 \<Longrightarrow> to_uintptr pf x = x"
  by (simp add: to_uintptr_def take_bit_word_eq_self)

lemma sanity_checks_base_address:
  "is_base_address_slot h bar \<Longrightarrow> sanity_checks h bar addr = (mem_or_io addr, [])"
  by (auto simp add: is_base_address_slot_def sanity_checks_def pci_header_defs)

lemma mem_or_io_ucast: "mem_or_io (ucast (r :: 32 word)) = (if bit r 0 then TYPE_IOBAR else TYPE_MEMBAR)"
  by (simp add: mem_or_io_def PCI_BASE_ADDRESS_SPACE_def PCI_BASE_ADDRESS_SPACE_IO_def
      ucast_space_io)

lemma sanity_checks_unknown:
  "\<not> is_base_address_slot h bar \<Longrightarrow> \<not> is_rom_slot h bar \<Longrightarrow>
   fst (sanity_checks h bar addr) = TYPE_UNKNOWN"
  by (auto simp add: is_base_address_slot_def is_rom_slot_def sanity_checks_def pci_header_defs)

lemma readbar_memory_64:
  assumes "is_memory_bar d bar" and "pci_read_long d bar AND 0x6 = 0x4"
  shows "pcidev_readbar pf d bar =
     (let addr = (ucast (pci_read_long d bar) :: 64 word);
          upperaddr = pci_read_long d (bar + 4);
          t5 = [Cfg_read_byte 0x0e, Msg Pspew (Header_type (pci_read_byte d 0x0e AND 0x7f)),
                Cfg_read_long bar, Cfg_read_word 0x04, Msg Pdbg Requested_bar_type,
                Msg Pdbg Bar_MEM] @
               (if pci_read_word d 0x04 AND 0x2 = 0 then [Msg Perr Mem_space_disabled] else []) @
               [Msg Pdbg (Mem_layout ''64'' (addr AND 0x8 \<noteq> 0)), Cfg_read_long (bar + 4)]
      in if upperaddr \<noteq> 0 then
           (if sizeof_uintptr pf \<noteq> 8 then (0, t5 @ [Msg Perr Bar_unreachable])
            else (to_uintptr pf ((addr OR push_bit 32 (ucast upperaddr)) AND NOT 0x0f), t5))
         else (to_uintptr pf (addr AND NOT 0x0f), t5))"
  using assms
  by (simp add: pcidev_readbar_def is_memory_bar_def sanity_checks_base_address
      mem_or_io_ucast ucast_and_6 width_text_def Let_def pci_header_defs)

lemma readbar_unknown:
  assumes "\<not> is_base_address_slot (pci_read_byte d 0x0e AND 0x7f) bar"
    and "\<not> is_rom_slot (pci_read_byte d 0x0e AND 0x7f) bar"
  shows "fst (pcidev_readbar pf d bar) = to_uintptr pf (ucast (pci_read_long d bar)) \<and>
         last (snd (pcidev_readbar pf d bar)) = Msg Perr Bar_type_unknown"
proof -
  obtain ts where "sanity_checks (pci_read_byte d 0x0e AND 0x7f) bar
      (ucast (pci_read_long d bar)) = (TYPE_UNKNOWN, ts)"
    using sanity_checks_unknown [OF assms, of "ucast (pci_read_long d bar)"]
    by (cases "sanity_checks (pci_read_byte d 0x0e AND 0x7f) bar (ucast (pci_read_long d bar))")
      simp
  then show ?thesis
    by (simp add: pcidev_readbar_def Let_def pci_header_defs)
qed

text \<open>
  Claim C2. For a memory BAR whose raw value has bits 2:1 equal to \<open>10\<close>, the classifier
  reads the register at offset + 4. When that upper register is not zero, a build whose
  \<open>uintptr_t\<close> has 8 bytes returns the merged address with the low four bits cleared (its
  upper half is the upper register, its lower half the masked raw value), and a build
  with a narrower \<open>uintptr_t\<close> returns 0 after saying that the BAR is unreachable. When
  the upper register is zero the result is the masked raw value cast to \<open>uintptr_t\<close>,
  which is the masked 32-bit address itself as soon as \<open>uintptr_t\<close> has 4 bytes or more.
\<close>

theorem readbar_64bit_memory_bar:
  "is_memory_bar d bar \<and> pci_read_long d bar AND 0x6 = 0x4 \<longrightarrow>
     Cfg_read_long (bar + 4) \<in> set (snd (pcidev_readbar pf d bar)) \<and>
     (pci_read_long d (bar + 4) \<noteq> 0 \<and> sizeof_uintptr pf = 8 \<longrightarrow>
        fst (pcidev_readbar pf d bar) =
          (ucast (pci_read_long d bar) OR push_bit 32 (ucast (pci_read_long d (bar + 4))))
            AND NOT 0x0f \<and>
        drop_bit 32 (fst (pcidev_readbar pf d bar)) = ucast (pci_read_long d (bar + 4)) \<and>
        (ucast (fst (pcidev_readbar pf d bar)) :: 32 word) = pci_read_long d bar AND NOT 0x0f) \<and>
     (pci_read_long d (bar + 4) \<noteq> 0 \<and> sizeof_uintptr pf < 8 \<longrightarrow>
        fst (pcidev_readbar pf d bar) = 0 \<and>
        last (snd (pcidev_readbar pf d bar)) = Msg Perr Bar_unreachable) \<and>
     (pci_read_long d (bar + 4) = 0 \<longrightarrow>
        fst (pcidev_readbar pf d bar) = to_uintptr pf (ucast (pci_read_long d bar AND NOT 0x0f)) \<and>
        (4 \<le> sizeof_uintptr pf \<longrightarrow>
           fst (pcidev_readbar pf d bar) = ucast (pci_read_long d bar AND NOT 0x0f)))"
proof (intro impI, elim conjE)
  assume m: "is_memory_bar d bar" and w: "pci_read_long d bar AND 0x6 = 0x4"
  note rb = readbar_memory_64 [OF m w, of pf]
  have rd: "Cfg_read_long (bar + 4) \<in> set (snd (pcidev_readbar pf d bar))"
    by (simp add: rb Let_def)
  have hi: "pci_read_long d (bar + 4) \<noteq> 0 \<Longrightarrow> sizeof_uintptr pf = 8 \<Longrightarrow>
      fst (pcidev_readbar pf d bar) =
        (ucast (pci_read_long d bar) OR push_bit 32 (ucast (pci_read_long d (bar + 4))))
          AND NOT 0x0f"
    by (simp add: rb Let_def to_uintptr_64)
  have hi_upper: "drop_bit 32 (fst (pcidev_readbar pf d bar)) = ucast (pci_read_long d (bar + 4))"
    if "pci_read_long d (bar + 4) \<noteq> 0" and "sizeof_uintptr pf = 8"
    unfolding hi [OF that] by (rule merged_hi)
  have hi_lower: "(ucast (fst (pcidev_readbar pf d bar)) :: 32 word) =
      pci_read_long d bar AND NOT 0x0f"
    if "pci_read_long d (bar + 4) \<noteq> 0" and "sizeof_uintptr pf = 8"
    unfolding hi [OF that] by (rule merged_lo)
  have no: "pci_read_long d (bar + 4) \<noteq> 0 \<Longrightarrow> sizeof_uintptr pf < 8 \<Longrightarrow>
      fst (pcidev_readbar pf d bar) = 0 \<and>
      last (snd (pcidev_readbar pf d bar)) = Msg Perr Bar_unreachable"
    by (simp add: rb Let_def)
  have mask_lo: "(ucast (pci_read_long d bar) :: 64 word) AND NOT 0x0f =
      ucast (pci_read_long d bar AND NOT 0x0f)"
    by (rule bit_word_eqI) (auto simp add: bit_simps dest: bit_imp_le_length)
  have lo: "pci_read_long d (bar + 4) = 0 \<Longrightarrow>
      fst (pcidev_readbar pf d bar) = to_uintptr pf (ucast (pci_read_long d bar AND NOT 0x0f))"
    using mask_lo by (simp add: rb Let_def)
  have lo4: "pci_read_long d (bar + 4) = 0 \<Longrightarrow> 4 \<le> sizeof_uintptr pf \<Longrightarrow>
      fst (pcidev_readbar pf d bar) = ucast (pci_read_long d bar AND NOT 0x0f)"
    using low_fits [of "sizeof_uintptr pf" "pci_read_long d bar"]
    by (simp add: rb Let_def to_uintptr_def)
  show "Cfg_read_long (bar + 4) \<in> set (snd (pcidev_readbar pf d bar)) \<and>
     (pci_read_long d (bar + 4) \<noteq> 0 \<and> sizeof_uintptr pf = 8 \<longrightarrow>
        fst (pcidev_readbar pf d bar) =
          (ucast (pci_read_long d bar) OR push_bit 32 (ucast (pci_read_long d (bar + 4))))
            AND NOT 0x0f \<and>
        drop_bit 32 (fst (pcidev_readbar pf d bar)) = ucast (pci_read_long d (bar + 4)) \<and>
        (ucast (fst (pcidev_readbar pf d bar)) :: 32 word) = pci_read_long d bar AND NOT 0x0f) \<and>
     (pci_read_long d (bar + 4) \<noteq> 0 \<and> sizeof_uintptr pf < 8 \<longrightarrow>
        fst (pcidev_readbar pf d bar) = 0 \<and>
        last (snd (pcidev_readbar pf d bar)) = Msg Perr Bar_unreachable) \<and>
     (pci_read_long d (bar + 4) = 0 \<longrightarrow>
        fst (pcidev_readbar pf d bar) = to_uintptr pf (ucast (pci_read_long d bar AND NOT 0x0f)) \<and>
        (4 \<le> sizeof_uintptr pf \<longrightarrow>
           fst (pcidev_readbar pf d bar) = ucast (pci_read_long d bar AND NOT 0x0f)))"
    using rd hi hi_upper hi_lower no lo lo4 by blast
qed

text \<open>
  The card's BAR 0 reads \<open>0xf0000004\<close> with upper register 1: the 64-bit build returns
  \<open>0x1f0000000\<close>, the 32-bit build 0. With a zero upper register the 32-bit build
  returns \<open>0xf0000000\<close>.
\<close>

theorem readbar_64bit_memory_bar_witness:
  "fst (pcidev_readbar platform64 card 0x10) = 0x1f0000000 \<and>
   Cfg_read_long 0x14 \<in> set (snd (pcidev_readbar platform64 card 0x10)) \<and>
   fst (pcidev_readbar platform32 card 0x10) = 0 \<and>
   last (snd (pcidev_readbar platform32 card 0x10)) = Msg Perr Bar_unreachable \<and>
   fst (pcidev_readbar platform32 card_low 0x10) = 0xf0000000"
proof -
  have m: "is_memory_bar card 0x10" "is_memory_bar card_low 0x10"
    by (simp_all add: is_memory_bar_def is_base_address_slot_def card_def card_low_def)
  have r: "pci_read_long card 0x10 = 0xf0000004" "pci_read_long card (0x10 + 4) = 0x1"
    "pci_read_long card_low 0x10 = 0xf0000004" "pci_read_long card_low (0x10 + 4) = 0"
    by (simp_all add: card_def card_low_def)
  have p: "sizeof_uintptr platform64 = 8" "sizeof_uintptr platform32 = 4"
    by (simp_all add: platform64_def platform32_def)
  show ?thesis
    using readbar_64bit_memory_bar [of card "0x10" platform64]
      readbar_64bit_memory_bar [of card "0x10" platform32]
      readbar_64bit_memory_bar [of card_low "0x10" platform32]
      m r p
    by (simp add: to_uintptr_def)
qed

text \<open>
  Claim C3, as the code has it. When the header type is neither 0 nor 1 (CardBus or any
  other), or the offset is neither a base-address slot nor the ROM slot of the header
  type, the BAR is classified as unknown, \<open>msg_perr\<close> reports it, and the function goes
  on to return the raw register value cast to \<open>uintptr_t\<close>, with no mask applied; on a
  build whose \<open>uintptr_t\<close> has 4 bytes or more that is the raw value itself.
\<close>

theorem readbar_unknown_returns_raw:
  "(pci_read_byte d 0x0e AND 0x7f \<noteq> 0 \<and> pci_read_byte d 0x0e AND 0x7f \<noteq> 1) \<or>
   (\<not> is_base_address_slot (pci_read_byte d 0x0e AND 0x7f) bar \<and>
    \<not> is_rom_slot (pci_read_byte d 0x0e AND 0x7f) bar) \<longrightarrow>
     fst (sanity_checks (pci_read_byte d 0x0e AND 0x7f) bar (ucast (pci_read_long d bar))) =
       TYPE_UNKNOWN \<and>
     Msg Perr Bar_type_unknown \<in> set (snd (pcidev_readbar pf d bar)) \<and>
     fst (pcidev_readbar pf d bar) = to_uintptr pf (ucast (pci_read_long d bar)) \<and>
     (4 \<le> sizeof_uintptr pf \<longrightarrow> fst (pcidev_readbar pf d bar) = ucast (pci_read_long d bar))"
proof
  assume "(pci_read_byte d 0x0e AND 0x7f \<noteq> 0 \<and> pci_read_byte d 0x0e AND 0x7f \<noteq> 1) \<or>
   (\<not> is_base_address_slot (pci_read_byte d 0x0e AND 0x7f) bar \<and>
    \<not> is_rom_slot (pci_read_byte d 0x0e AND 0x7f) bar)"
  then have s: "\<not> is_base_address_slot (pci_read_byte d 0x0e AND 0x7f) bar"
    and r: "\<not> is_rom_slot (pci_read_byte d 0x0e AND 0x7f) bar"
    by (auto simp add: is_base_address_slot_def is_rom_slot_def)
  have fits: "4 \<le> sizeof_uintptr pf \<Longrightarrow>
      to_uintptr pf (ucast (pci_read_long d bar)) = ucast (pci_read_long d bar)"
    unfolding to_uintptr_def
    by (rule bit_word_eqI) (auto simp add: bit_simps dest: bit_imp_le_length)
  obtain ts where sc: "sanity_checks (pci_read_byte d 0x0e AND 0x7f) bar
      (ucast (pci_read_long d bar)) = (TYPE_UNKNOWN, ts)"
    using sanity_checks_unknown [OF s r, of "ucast (pci_read_long d bar)"]
    by (cases "sanity_checks (pci_read_byte d 0x0e AND 0x7f) bar (ucast (pci_read_long d bar))")
      simp
  have msg: "Msg Perr Bar_type_unknown \<in> set (snd (pcidev_readbar pf d bar))"
    using sc by (simp add: pcidev_readbar_def Let_def pci_header_defs)
  show "fst (sanity_checks (pci_read_byte d 0x0e AND 0x7f) bar (ucast (pci_read_long d bar))) =
       TYPE_UNKNOWN \<and>
     Msg Perr Bar_type_unknown \<in> set (snd (pcidev_readbar pf d bar)) \<and>
     fst (pcidev_readbar pf d bar) = to_uintptr pf (ucast (pci_read_long d bar)) \<and>
     (4 \<le> sizeof_uintptr pf \<longrightarrow> fst (pcidev_readbar pf d bar) = ucast (pci_read_long d bar))"
    using readbar_unknown [OF s r, of pf] sc msg fits by simp
qed

text \<open>
  The CardBus bridge at offset \<open>0x10\<close> gives the raw \<open>0xffff0000\<close>; the card at the
  unlisted offset \<open>0x28\<close>, which reads 0, gives 0.
\<close>

theorem readbar_unknown_returns_raw_witness:
  "fst (sanity_checks 2 0x10 0xffff0000) = TYPE_UNKNOWN \<and>
   Msg Perr Bar_type_unknown \<in> set (snd (pcidev_readbar platform64 cardbus_bridge 0x10)) \<and>
   fst (pcidev_readbar platform64 cardbus_bridge 0x10) = 0xffff0000 \<and>
   fst (pcidev_readbar platform64 card 0x28) = 0"
proof -
  have h: "pci_read_byte cardbus_bridge 0x0e AND 0x7f = 2" "pci_read_byte card 0x0e AND 0x7f = 0"
    by (simp_all add: cardbus_bridge_def card_def)
  have s: "\<not> is_base_address_slot 0 0x28" "\<not> is_rom_slot 0 0x28"
    by (simp_all add: is_base_address_slot_def is_rom_slot_def)
  have r: "pci_read_long cardbus_bridge 0x10 = 0xffff0000" "pci_read_long card 0x28 = 0"
    by (simp_all add: cardbus_bridge_def card_def)
  have p: "sizeof_uintptr platform64 = 8"
    by (simp add: platform64_def)
  show ?thesis
    using readbar_unknown_returns_raw [of cardbus_bridge "0x10" platform64]
      readbar_unknown_returns_raw [of card "0x28" platform64]
      h s r p
    by (simp add: to_uintptr_64)
qed

text \<open>
  Claim C3 as stated says the returned address is 0. The CardBus bridge is classified
  as unknown and the classifier returns \<open>0xffff0000\<close>.
\<close>

theorem unknown_bar_address_not_zero:
  "pci_read_byte cardbus_bridge PCI_HEADER_TYPE AND 0x7f = PCI_HEADER_TYPE_CARDBUS \<and>
   fst (sanity_checks PCI_HEADER_TYPE_CARDBUS PCI_BASE_ADDRESS_0
          (ucast (pci_read_long cardbus_bridge PCI_BASE_ADDRESS_0))) = TYPE_UNKNOWN \<and>
   fst (pcidev_readbar platform64 cardbus_bridge PCI_BASE_ADDRESS_0) = 0xffff0000 \<and>
   fst (pcidev_readbar platform64 cardbus_bridge PCI_BASE_ADDRESS_0) \<noteq> 0"
  by (simp add: pcidev_readbar_def sanity_checks_def cardbus_bridge_def platform64_def
      to_uintptr_def pci_header_defs Let_def)

section \<open>The device resolver: what the loops compute\<close>

text \<open>
  The identity check of each resolver finds an entry exactly when the device is on the
  list in the specification's sense.
\<close>

lemma on_whitelist_iff: "on_whitelist devs d = (check_supported devs d \<noteq> None)"
  unfolding on_whitelist_def
  by (induction devs) auto

lemma on_match_list_iff: "on_match_list matches d = (check_match matches d \<noteq> None)"
  unfolding on_match_list_def
  by (induction matches) auto

lemma survivors_bar_Nil: "survivors_bar pf flt devs bar [] = []"
  by (simp add: survivors_bar_def)

lemma survivors_bar_Cons:
  "survivors_bar pf flt devs bar (d # ds) =
     (if pci_filter_match flt d \<and> on_whitelist devs d \<and> fst (pcidev_readbar pf d bar) \<noteq> 0
      then d # survivors_bar pf flt devs bar ds else survivors_bar pf flt devs bar ds)"
  by (simp add: survivors_bar_def)

lemma survivors_Nil: "survivors flt matches [] = []"
  by (simp add: survivors_def)

lemma survivors_Cons:
  "survivors flt matches (d # ds) =
     (if pci_filter_match flt d \<and> on_match_list matches d
      then d # survivors flt matches ds else survivors flt matches ds)"
  by (simp add: survivors_def)

text \<open>One turn of the outer loop of \<open>pcidev_init\<close>, by what becomes of the device.\<close>

lemma pcidev_init_loop_skip:
  "\<not> (pci_filter_match flt d \<and> on_whitelist devs d) \<Longrightarrow>
   pcidev_init_loop pf flt devs bar (d # ds) (fd, n, t) =
     pcidev_init_loop pf flt devs bar ds (fd, n, t)"
  by (auto simp add: on_whitelist_iff)

lemma pcidev_init_loop_candidate:
  "pci_filter_match flt d \<Longrightarrow> check_supported devs d = Some e \<Longrightarrow>
   pcidev_init_loop pf flt devs bar (d # ds) (fd, n, t) =
     pcidev_init_loop pf flt devs bar ds
       (if fst (pcidev_readbar pf d bar) \<noteq> 0 then Some d else fd,
        if fst (pcidev_readbar pf d bar) \<noteq> 0 then n + 1 else n,
        t @ [Msg Pdbg Found_device] @
          (if status e = NT then [Msg Pinfo Untested_device] else []) @
          snd (pcidev_readbar pf d bar))"
  by (cases "pcidev_readbar pf d bar") simp

lemma pcidev_init_loop_result:
  "\<exists>t'. pcidev_init_loop pf flt devs bar ds (fd, n, t) =
     (if survivors_bar pf flt devs bar ds = [] then fd
      else Some (last (survivors_bar pf flt devs bar ds)),
      n + int (length (survivors_bar pf flt devs bar ds)), t')"
proof (induction ds arbitrary: fd n t)
  case Nil
  then show ?case by (simp add: survivors_bar_Nil)
next
  case (Cons d ds)
  define S where "S = survivors_bar pf flt devs bar ds"
  show ?case
  proof (cases "pci_filter_match flt d \<and> on_whitelist devs d")
    case False
    have step: "pcidev_init_loop pf flt devs bar (d # ds) (fd, n, t) =
        pcidev_init_loop pf flt devs bar ds (fd, n, t)"
      by (rule pcidev_init_loop_skip [OF False])
    have same: "survivors_bar pf flt devs bar (d # ds) = survivors_bar pf flt devs bar ds"
      using False by (auto simp add: survivors_bar_Cons)
    show ?thesis
      unfolding step same by (rule Cons.IH)
  next
    case True
    then obtain e where e: "check_supported devs d = Some e"
      by (auto simp add: on_whitelist_iff)
    from True have m: "pci_filter_match flt d" and wl: "on_whitelist devs d"
      by simp_all
    let ?t = "t @ [Msg Pdbg Found_device] @
        (if status e = NT then [Msg Pinfo Untested_device] else []) @
        snd (pcidev_readbar pf d bar)"
    show ?thesis
    proof (cases "fst (pcidev_readbar pf d bar) = 0")
      case True
      obtain t' where "pcidev_init_loop pf flt devs bar ds (fd, n, ?t) =
          (if S = [] then fd else Some (last S), n + int (length S), t')"
        using Cons.IH [of fd n ?t] unfolding S_def by blast
      then show ?thesis
        using True by (simp add: pcidev_init_loop_candidate [OF m e] survivors_bar_Cons S_def
            del: pcidev_init_loop.simps)
    next
      case False
      obtain t' where "pcidev_init_loop pf flt devs bar ds (Some d, n + 1, ?t) =
          (if S = [] then Some d else Some (last S), n + 1 + int (length S), t')"
        using Cons.IH [of "Some d" "n + 1" ?t] unfolding S_def by blast
      then show ?thesis
        using False m wl
        by (simp add: pcidev_init_loop_candidate [OF m e] survivors_bar_Cons S_def
            del: pcidev_init_loop.simps)
    qed
  qed
qed

lemma flashrom_pci_init_loop_skip:
  "\<not> (pci_filter_match flt d \<and> on_match_list matches d) \<Longrightarrow>
   flashrom_pci_init_loop env flt matches (d # ds) (fd, fm, nm, n, t) =
     flashrom_pci_init_loop env flt matches ds (fd, fm, nm, n, t)"
  by (auto simp add: on_match_list_iff)

lemma flashrom_pci_init_loop_found:
  "pci_filter_match flt d \<Longrightarrow> check_match matches d = Some m \<Longrightarrow>
   flashrom_pci_init_loop env flt matches (d # ds) (fd, fm, nm, n, t) =
     flashrom_pci_init_loop env flt matches ds
       (Some d, Some m, pci_lookup_name env (vendor_id d) (device_id d), n + 1,
        t @ [Msg Pinfo (Detected_device (pci_lookup_name env (vendor_id d) (device_id d)))] @
          (if status m = NT then [Msg Pinfo Untested_device] else []))"
  by (simp add: Let_def)

lemma flashrom_pci_init_loop_result:
  "\<exists>t'. flashrom_pci_init_loop env flt matches ds (fd, fm, nm, n, t) =
     (if survivors flt matches ds = [] then fd else Some (last (survivors flt matches ds)),
      if survivors flt matches ds = [] then fm
      else check_match matches (last (survivors flt matches ds)),
      if survivors flt matches ds = [] then nm
      else pci_lookup_name env (vendor_id (last (survivors flt matches ds)))
             (device_id (last (survivors flt matches ds))),
      n + int (length (survivors flt matches ds)), t')"
proof (induction ds arbitrary: fd fm nm n t)
  case Nil
  then show ?case by (simp add: survivors_Nil)
next
  case (Cons d ds)
  define S where "S = survivors flt matches ds"
  show ?case
  proof (cases "pci_filter_match flt d \<and> on_match_list matches d")
    case False
    have step: "flashrom_pci_init_loop env flt matches (d # ds) (fd, fm, nm, n, t) =
        flashrom_pci_init_loop env flt matches ds (fd, fm, nm, n, t)"
      by (rule flashrom_pci_init_loop_skip [OF False])
    have same: "survivors flt matches (d # ds) = survivors flt matches ds"
      using False by (auto simp add: survivors_Cons)
    show ?thesis
      unfolding step same by (rule Cons.IH)
  next
    case True
    then obtain m where m: "check_match matches d = Some m"
      by (auto simp add: on_match_list_iff)
    from True have f: "pci_filter_match flt d" and ml: "on_match_list matches d"
      by simp_all
    let ?nm = "pci_lookup_name env (vendor_id d) (device_id d)"
    let ?t = "t @ [Msg Pinfo (Detected_device ?nm)] @
        (if status m = NT then [Msg Pinfo Untested_device] else [])"
    obtain t' where "flashrom_pci_init_loop env flt matches ds (Some d, Some m, ?nm, n + 1, ?t) =
        (if S = [] then Some d else Some (last S),
         if S = [] then Some m else check_match matches (last S),
         if S = [] then ?nm else pci_lookup_name env (vendor_id (last S)) (device_id (last S)),
         n + 1 + int (length S), t')"
      using Cons.IH [of "Some d" "Some m" ?nm "n + 1" ?t] unfolding S_def by blast
    then show ?thesis
      using f ml m
      by (simp add: flashrom_pci_init_loop_found [OF f m] survivors_Cons S_def
          del: flashrom_pci_init_loop.simps)
  qed
qed

section \<open>The device resolver: the BAR filter of \<open>pcidev_init\<close>\<close>

text \<open>
  Claim C9. The count \<open>found\<close> that the loop of \<open>pcidev_init\<close> reaches is the count it
  started from plus the number of devices that pass the location filter, are on the
  whitelist and have a classified address other than zero. A device that passes the
  filter and is on the whitelist but whose classified address is zero leaves \<open>found\<close>
  and \<open>found_dev\<close> as they would be without it; all it adds to the trace is the line
  that it was found, the notice for an untested entry, and the classifier's own output.
  The same device with a non-zero address raises the count by one.
\<close>

theorem zero_bar_device_not_counted:
  "fst (snd (pcidev_init_loop pf flt devs bar ds (found_dev, found, t))) =
     found + int (length (survivors_bar pf flt devs bar ds)) \<and>
   (pci_filter_match flt d \<and> on_whitelist devs d \<and> fst (pcidev_readbar pf d bar) = 0 \<longrightarrow>
      (\<exists>e. check_supported devs d = Some e \<and>
         pcidev_init_loop pf flt devs bar (d # ds) (found_dev, found, t) =
           pcidev_init_loop pf flt devs bar ds
             (found_dev, found,
              t @ [Msg Pdbg Found_device] @
                (if status e = NT then [Msg Pinfo Untested_device] else []) @
                snd (pcidev_readbar pf d bar))) \<and>
      fst (snd (pcidev_init_loop pf flt devs bar (d # ds) (found_dev, found, t))) =
        fst (snd (pcidev_init_loop pf flt devs bar ds (found_dev, found, t))) \<and>
      fst (pcidev_init_loop pf flt devs bar (d # ds) (found_dev, found, t)) =
        fst (pcidev_init_loop pf flt devs bar ds (found_dev, found, t))) \<and>
   (pci_filter_match flt d \<and> on_whitelist devs d \<and> fst (pcidev_readbar pf d bar) \<noteq> 0 \<longrightarrow>
      fst (snd (pcidev_init_loop pf flt devs bar (d # ds) (found_dev, found, t))) =
        fst (snd (pcidev_init_loop pf flt devs bar ds (found_dev, found, t))) + 1)"
proof -
  have count: "fst (snd (pcidev_init_loop pf flt devs bar xs (fd, n, u))) =
      n + int (length (survivors_bar pf flt devs bar xs))" for xs fd n u
    using pcidev_init_loop_result [of pf flt devs bar xs fd n u] by auto
  have who: "fst (pcidev_init_loop pf flt devs bar xs (fd, n, u)) =
      (if survivors_bar pf flt devs bar xs = [] then fd
       else Some (last (survivors_bar pf flt devs bar xs)))" for xs fd n u
    using pcidev_init_loop_result [of pf flt devs bar xs fd n u] by auto
  have zero: "\<exists>e. check_supported devs d = Some e \<and>
         pcidev_init_loop pf flt devs bar (d # ds) (found_dev, found, t) =
           pcidev_init_loop pf flt devs bar ds
             (found_dev, found,
              t @ [Msg Pdbg Found_device] @
                (if status e = NT then [Msg Pinfo Untested_device] else []) @
                snd (pcidev_readbar pf d bar))"
    if "pci_filter_match flt d" and "on_whitelist devs d" and "fst (pcidev_readbar pf d bar) = 0"
  proof -
    from that(2) obtain e where e: "check_supported devs d = Some e"
      by (auto simp add: on_whitelist_iff)
    show ?thesis
      using pcidev_init_loop_candidate [OF that(1) e, of pf bar ds found_dev found t] e that(3)
      by (simp del: pcidev_init_loop.simps)
  qed
  have same: "survivors_bar pf flt devs bar (d # ds) = survivors_bar pf flt devs bar ds"
    if "fst (pcidev_readbar pf d bar) = 0"
    using that by (simp add: survivors_bar_Cons)
  have more: "survivors_bar pf flt devs bar (d # ds) = d # survivors_bar pf flt devs bar ds"
    if "pci_filter_match flt d" and "on_whitelist devs d" and "fst (pcidev_readbar pf d bar) \<noteq> 0"
    using that by (simp add: survivors_bar_Cons)
  show ?thesis
    using zero same more by (simp add: count who del: pcidev_init_loop.simps)
qed

text \<open>
  The card, on the whitelist and unfiltered, is not counted by the 32-bit build, for
  which its 64-bit BAR classifies to 0, and is counted by the 64-bit build.
\<close>

theorem zero_bar_device_not_counted_witness:
  "fst (snd (pcidev_init_loop platform32 pci_filter_init whitelist 0x10 [card] (None, 0, []))) = 0 \<and>
   fst (pcidev_init_loop platform32 pci_filter_init whitelist 0x10 [card] (None, 0, [])) = None \<and>
   fst (snd (pcidev_init_loop platform64 pci_filter_init whitelist 0x10 [card] (None, 0, []))) = 1"
proof -
  have f: "pci_filter_match pci_filter_init card"
    by (simp add: pci_filter_match_def pci_filter_init_def)
  have l: "on_whitelist whitelist card"
    by (simp add: on_whitelist_def whitelist_def card_def)
  have z: "fst (pcidev_readbar platform32 card 0x10) = 0"
    "fst (pcidev_readbar platform64 card 0x10) \<noteq> 0"
    by (simp_all add: pcidev_readbar_def sanity_checks_def mem_or_io_def card_def
        platform32_def platform64_def to_uintptr_def pci_header_defs Let_def)
  show ?thesis
    using zero_bar_device_not_counted [of platform32 pci_filter_init whitelist "0x10" "[]"
        None 0 "[]" card]
      zero_bar_device_not_counted [of platform64 pci_filter_init whitelist "0x10" "[]"
        None 0 "[]" card]
      f l z
    by (simp add: survivors_bar_Nil del: pcidev_init_loop.simps(2))
qed

section \<open>The device resolver: the outcome policy\<close>

text \<open>
  Enabling a device leaves the handle's device reference alone, and its return value and
  the handle it leaves depend on the state only through \<open>errno\<close> and the enable flag.
  With no context alive, an accepting registry and a filter that parses, each resolver
  comes down to a case distinction on the list of survivors.
\<close>

lemma enable_preserves_pci:
  "pci (fst (snd (flashrom_pci_device_enable sc h w))) = pci h"
  by (simp add: flashrom_pci_device_enable_def sys_defs Let_def)

lemma enable_result_cong:
  "errno w' = errno w \<Longrightarrow> enable_flag w' = enable_flag w \<Longrightarrow>
   fst (flashrom_pci_device_enable sc h w') = fst (flashrom_pci_device_enable sc h w) \<and>
   fst (snd (flashrom_pci_device_enable sc h w')) = fst (snd (flashrom_pci_device_enable sc h w))"
  by (simp add: flashrom_pci_device_enable_def sys_defs Let_def)

lemma pci_init_common_ok:
  "pacc w = None \<Longrightarrow> register_shutdown env Pcidev_shutdown = 0 \<Longrightarrow>
   pci_init_common env w =
     (0, w\<lparr>pacc := Some (scan_bus env),
           trace := trace w @ [Register_shutdown Pcidev_shutdown]\<rparr>)"
  by (simp add: pci_init_common_def emit_def Let_def)

lemma pcidev_init_outcome:
  assumes "pacc w = None" and "register_shutdown env Pcidev_shutdown = 0"
    and "filter_by_bdf env = (None, flt)"
  shows "\<exists>t'. pcidev_init pf env devs bar w =
     (let S = survivors_bar pf flt devs bar (scan_bus env);
          w2 = w\<lparr>pacc := Some (scan_bus env), trace := t'\<rparr>
      in if S = [] then (None, emit (Msg Perr No_supported_device) w2)
         else if 1 < length S then (None, emit (Msg Perr Multiple_devices_use_bdf_filter) w2)
         else (Some (last S), w2))"
proof -
  define S where "S = survivors_bar pf flt devs bar (scan_bus env)"
  obtain t' where l: "pcidev_init_loop pf flt devs bar (scan_bus env)
      (None, 0, trace w @ [Register_shutdown Pcidev_shutdown]) =
      (if S = [] then None else Some (last S), 0 + int (length S), t')"
    using pcidev_init_loop_result [of pf flt devs bar "scan_bus env" None 0
        "trace w @ [Register_shutdown Pcidev_shutdown]"]
    unfolding S_def by blast
  have "pcidev_init pf env devs bar w =
     (let w2 = w\<lparr>pacc := Some (scan_bus env), trace := t'\<rparr>
      in if S = [] then (None, emit (Msg Perr No_supported_device) w2)
         else if 1 < length S then (None, emit (Msg Perr Multiple_devices_use_bdf_filter) w2)
         else (Some (last S), w2))"
    using l by (auto simp add: pcidev_init_def pci_init_common_ok [OF assms(1,2)] assms(3)
        devices_def Let_def)
  then show ?thesis
    unfolding S_def Let_def by blast
qed

lemma flashrom_pci_init_outcome:
  assumes "pacc w = None" and "register_shutdown env Pcidev_shutdown = 0"
    and "filter_by_bdf env = (None, flt)"
  shows "\<exists>t'. flashrom_pci_init env sc matches w =
     (let S = survivors flt matches (scan_bus env);
          w2 = w\<lparr>pacc := Some (scan_bus env), trace := t'\<rparr>
      in if S = [] then (Returns None, emit (Msg Perr No_supported_device) w2)
         else if 1 < length S
         then (Returns None, emit (Msg Perr Multiple_devices_use_bdf_filter) w2)
         else
           (case (check_match matches (last S),
                  pci_lookup_name env (vendor_id (last S)) (device_id (last S))) of
              (Some m, Some n) \<Rightarrow>
                (let (rc1, device1, w4) =
                       flashrom_pci_device_enable sc (resolved_handle (last S) m n)
                         (emit (Register_shutdown Flashrom_pci_device_shutdown) w2)
                 in if rc1 \<noteq> 0 then (Returns None, w4) else (Returns (Some device1), w4))
            | _ \<Rightarrow> (Undefined_strdup_NULL, w2)))"
proof -
  define S where "S = survivors flt matches (scan_bus env)"
  obtain t' where l: "flashrom_pci_init_loop env flt matches (scan_bus env)
      (None, None, None, 0, trace w @ [Register_shutdown Pcidev_shutdown]) =
      (if S = [] then None else Some (last S),
       if S = [] then None else check_match matches (last S),
       if S = [] then None
       else pci_lookup_name env (vendor_id (last S)) (device_id (last S)),
       0 + int (length S), t')"
    using flashrom_pci_init_loop_result [of env flt matches "scan_bus env" None None None 0
        "trace w @ [Register_shutdown Pcidev_shutdown]"]
    unfolding S_def by blast
  have "flashrom_pci_init env sc matches w =
     (let w2 = w\<lparr>pacc := Some (scan_bus env), trace := t'\<rparr>
      in if S = [] then (Returns None, emit (Msg Perr No_supported_device) w2)
         else if 1 < length S
         then (Returns None, emit (Msg Perr Multiple_devices_use_bdf_filter) w2)
         else
           (case (check_match matches (last S),
                  pci_lookup_name env (vendor_id (last S)) (device_id (last S))) of
              (Some m, Some n) \<Rightarrow>
                (let (rc1, device1, w4) =
                       flashrom_pci_device_enable sc (resolved_handle (last S) m n)
                         (emit (Register_shutdown Flashrom_pci_device_shutdown) w2)
                 in if rc1 \<noteq> 0 then (Returns None, w4) else (Returns (Some device1), w4))
            | _ \<Rightarrow> (Undefined_strdup_NULL, w2)))"
    using l
    by (auto simp add: flashrom_pci_init_def pci_init_common_ok [OF assms(1,2)] assms(3)
        devices_def Let_def resolved_handle_def split: option.splits)
  then show ?thesis
    unfolding S_def Let_def by blast
qed

lemma survivors_on_match_list:
  "d \<in> set (survivors flt matches ds) \<Longrightarrow> check_match matches d \<noteq> None"
  by (simp add: survivors_def on_match_list_iff)

text \<open>
  Claim C1, as the code has it. Let the libpci context be free, the shutdown registry
  accept, and the optional \<open>pci\<close> parameter parse. Then \<open>pcidev_init\<close> returns a device
  exactly when one enumerated device survives the location filter, the identity check and
  the BAR check, and the device returned is that survivor. \<open>flashrom_pci_init\<close> returns a
  handle only when one device survives the location filter and the identity check, and
  the handle is for that survivor; with one survivor it hands a null name to \<open>strdup\<close> when
  the names database has none, and otherwise returns the handle exactly when enabling the
  device returns 0 and the null pointer when it does not. In both functions no survivor
  gives the null pointer with the message that no supported device was found as the last
  output, and more than one survivor gives the null pointer with the message that tells
  the operator to select by \<open>pci=bb:dd.f\<close>; a device is never picked among several.
\<close>

theorem resolution_policy:
  "pacc w = None \<and> register_shutdown env Pcidev_shutdown = 0 \<and> filter_by_bdf env = (None, flt) \<longrightarrow>
     (let S = survivors_bar pf flt devs bar (scan_bus env);
          r = pcidev_init pf env devs bar w
      in fst r = (if length S = 1 then Some (hd S) else None) \<and>
         (S = [] \<longrightarrow> last (trace (snd r)) = Msg Perr No_supported_device) \<and>
         (1 < length S \<longrightarrow> last (trace (snd r)) = Msg Perr Multiple_devices_use_bdf_filter)) \<and>
     (let S = survivors flt matches (scan_bus env);
          r = flashrom_pci_init env sc matches w
      in (S = [] \<longrightarrow>
            fst r = Returns None \<and> last (trace (snd r)) = Msg Perr No_supported_device) \<and>
         (1 < length S \<longrightarrow>
            fst r = Returns None \<and>
            last (trace (snd r)) = Msg Perr Multiple_devices_use_bdf_filter) \<and>
         (length S = 1 \<longrightarrow>
            (case pci_lookup_name env (vendor_id (hd S)) (device_id (hd S)) of
               None \<Rightarrow> fst r = Undefined_strdup_NULL
             | Some n \<Rightarrow>
                 (\<exists>m. check_match matches (hd S) = Some m \<and>
                    fst r =
                      Returns
                        (if fst (flashrom_pci_device_enable sc (resolved_handle (hd S) m n) w) = 0
                         then Some (fst (snd (flashrom_pci_device_enable sc
                                               (resolved_handle (hd S) m n) w)))
                         else None)))) \<and>
         (\<forall>h. fst r = Returns (Some h) \<longrightarrow> S = [pci h]))"
proof (intro impI, elim conjE)
  assume a: "pacc w = None" "register_shutdown env Pcidev_shutdown = 0"
    "filter_by_bdf env = (None, flt)"
  define S where "S = survivors_bar pf flt devs bar (scan_bus env)"
  define r where "r = pcidev_init pf env devs bar w"
  define S' where "S' = survivors flt matches (scan_bus env)"
  define r' where "r' = flashrom_pci_init env sc matches w"
  obtain t1 where r1: "r =
      (if S = [] then
         (None, emit (Msg Perr No_supported_device) (w\<lparr>pacc := Some (scan_bus env), trace := t1\<rparr>))
       else if 1 < length S then
         (None, emit (Msg Perr Multiple_devices_use_bdf_filter)
                  (w\<lparr>pacc := Some (scan_bus env), trace := t1\<rparr>))
       else (Some (last S), w\<lparr>pacc := Some (scan_bus env), trace := t1\<rparr>))"
    using pcidev_init_outcome [OF a, of pf devs bar] unfolding S_def r_def Let_def by blast
  have p1: "fst r = (if length S = 1 then Some (hd S) else None)"
  proof (cases S)
    case Nil
    then show ?thesis by (simp add: r1)
  next
    case (Cons x xs)
    then show ?thesis by (cases xs) (simp_all add: r1)
  qed
  have p2: "S = [] \<longrightarrow> last (trace (snd r)) = Msg Perr No_supported_device"
    by (simp add: r1 emit_def)
  have p3: "1 < length S \<longrightarrow> last (trace (snd r)) = Msg Perr Multiple_devices_use_bdf_filter"
    by (auto simp add: r1 emit_def)
  obtain t2 where r2: "r' =
      (if S' = [] then
         (Returns None,
          emit (Msg Perr No_supported_device) (w\<lparr>pacc := Some (scan_bus env), trace := t2\<rparr>))
       else if 1 < length S' then
         (Returns None,
          emit (Msg Perr Multiple_devices_use_bdf_filter)
            (w\<lparr>pacc := Some (scan_bus env), trace := t2\<rparr>))
       else
         (case (check_match matches (last S'),
                pci_lookup_name env (vendor_id (last S')) (device_id (last S'))) of
            (Some m, Some n) \<Rightarrow>
              (let (rc1, device1, w4) =
                     flashrom_pci_device_enable sc (resolved_handle (last S') m n)
                       (emit (Register_shutdown Flashrom_pci_device_shutdown)
                          (w\<lparr>pacc := Some (scan_bus env), trace := t2\<rparr>))
               in if rc1 \<noteq> 0 then (Returns None, w4) else (Returns (Some device1), w4))
          | _ \<Rightarrow> (Undefined_strdup_NULL, w\<lparr>pacc := Some (scan_bus env), trace := t2\<rparr>)))"
    using flashrom_pci_init_outcome [OF a, of sc matches] unfolding S'_def r'_def Let_def
    by blast
  have q1: "S' = [] \<longrightarrow>
      fst r' = Returns None \<and> last (trace (snd r')) = Msg Perr No_supported_device"
    by (simp add: r2 emit_def)
  have q2: "1 < length S' \<longrightarrow>
      fst r' = Returns None \<and> last (trace (snd r')) = Msg Perr Multiple_devices_use_bdf_filter"
    by (auto simp add: r2 emit_def)
  have one: "\<exists>m. check_match matches d = Some m \<and>
      (case pci_lookup_name env (vendor_id d) (device_id d) of
         None \<Rightarrow> fst r' = Undefined_strdup_NULL
       | Some n \<Rightarrow>
           fst r' =
             Returns
               (if fst (flashrom_pci_device_enable sc (resolved_handle d m n) w) = 0
                then Some (fst (snd (flashrom_pci_device_enable sc (resolved_handle d m n) w)))
                else None))"
    if s: "S' = [d]" for d
  proof -
    from s have "d \<in> set (survivors flt matches (scan_bus env))"
      by (simp add: S'_def)
    then obtain m where m: "check_match matches d = Some m"
      using survivors_on_match_list by blast
    show ?thesis
    proof (cases "pci_lookup_name env (vendor_id d) (device_id d)")
      case None
      then show ?thesis by (simp add: r2 s m)
    next
      case (Some n)
      let ?w3 = "emit (Register_shutdown Flashrom_pci_device_shutdown)
          (w\<lparr>pacc := Some (scan_bus env), trace := t2\<rparr>)"
      have c: "fst (flashrom_pci_device_enable sc (resolved_handle d m n) ?w3) =
          fst (flashrom_pci_device_enable sc (resolved_handle d m n) w) \<and>
        fst (snd (flashrom_pci_device_enable sc (resolved_handle d m n) ?w3)) =
          fst (snd (flashrom_pci_device_enable sc (resolved_handle d m n) w))"
        by (rule enable_result_cong) (simp_all add: emit_def)
      obtain rc1 device1 w4 where e:
        "flashrom_pci_device_enable sc (resolved_handle d m n) ?w3 = (rc1, device1, w4)"
        by (cases "flashrom_pci_device_enable sc (resolved_handle d m n) ?w3")
      from c e have "fst (flashrom_pci_device_enable sc (resolved_handle d m n) w) = rc1"
        and "fst (snd (flashrom_pci_device_enable sc (resolved_handle d m n) w)) = device1"
        by simp_all
      then show ?thesis
        using e by (simp add: r2 s m Some)
    qed
  qed
  have q3: "length S' = 1 \<longrightarrow>
      (case pci_lookup_name env (vendor_id (hd S')) (device_id (hd S')) of
         None \<Rightarrow> fst r' = Undefined_strdup_NULL
       | Some n \<Rightarrow>
           (\<exists>m. check_match matches (hd S') = Some m \<and>
              fst r' =
                Returns
                  (if fst (flashrom_pci_device_enable sc (resolved_handle (hd S') m n) w) = 0
                   then Some (fst (snd (flashrom_pci_device_enable sc
                                         (resolved_handle (hd S') m n) w)))
                   else None)))"
  proof
    assume "length S' = 1"
    then obtain d where s: "S' = [d]"
      by (cases S') auto
    from one [OF s] show "case pci_lookup_name env (vendor_id (hd S')) (device_id (hd S')) of
         None \<Rightarrow> fst r' = Undefined_strdup_NULL
       | Some n \<Rightarrow>
           (\<exists>m. check_match matches (hd S') = Some m \<and>
              fst r' =
                Returns
                  (if fst (flashrom_pci_device_enable sc (resolved_handle (hd S') m n) w) = 0
                   then Some (fst (snd (flashrom_pci_device_enable sc
                                         (resolved_handle (hd S') m n) w)))
                   else None))"
      by (auto simp add: s split: option.splits)
  qed
  have q4: "\<forall>h. fst r' = Returns (Some h) \<longrightarrow> S' = [pci h]"
  proof (intro allI impI)
    fix h
    assume h: "fst r' = Returns (Some h)"
    have "S' \<noteq> []"
      using h q1 by auto
    moreover have "\<not> 1 < length S'"
      using h q2 by auto
    ultimately obtain d where s: "S' = [d]"
      by (cases S') auto
    from one [OF s] obtain m where
      "case pci_lookup_name env (vendor_id d) (device_id d) of
         None \<Rightarrow> fst r' = Undefined_strdup_NULL
       | Some n \<Rightarrow>
           fst r' =
             Returns
               (if fst (flashrom_pci_device_enable sc (resolved_handle d m n) w) = 0
                then Some (fst (snd (flashrom_pci_device_enable sc (resolved_handle d m n) w)))
                else None)"
      by blast
    with h obtain n where
      "h = fst (snd (flashrom_pci_device_enable sc (resolved_handle d m n) w))"
      by (auto split: option.splits if_splits)
    then have "pci h = d"
      by (simp add: enable_preserves_pci resolved_handle_def)
    with s show "S' = [pci h]"
      by simp
  qed
  show "(let S = survivors_bar pf flt devs bar (scan_bus env);
          r = pcidev_init pf env devs bar w
      in fst r = (if length S = 1 then Some (hd S) else None) \<and>
         (S = [] \<longrightarrow> last (trace (snd r)) = Msg Perr No_supported_device) \<and>
         (1 < length S \<longrightarrow> last (trace (snd r)) = Msg Perr Multiple_devices_use_bdf_filter)) \<and>
     (let S = survivors flt matches (scan_bus env);
          r = flashrom_pci_init env sc matches w
      in (S = [] \<longrightarrow>
            fst r = Returns None \<and> last (trace (snd r)) = Msg Perr No_supported_device) \<and>
         (1 < length S \<longrightarrow>
            fst r = Returns None \<and>
            last (trace (snd r)) = Msg Perr Multiple_devices_use_bdf_filter) \<and>
         (length S = 1 \<longrightarrow>
            (case pci_lookup_name env (vendor_id (hd S)) (device_id (hd S)) of
               None \<Rightarrow> fst r = Undefined_strdup_NULL
             | Some n \<Rightarrow>
                 (\<exists>m. check_match matches (hd S) = Some m \<and>
                    fst r =
                      Returns
                        (if fst (flashrom_pci_device_enable sc (resolved_handle (hd S) m n) w) = 0
                         then Some (fst (snd (flashrom_pci_device_enable sc
                                               (resolved_handle (hd S) m n) w)))
                         else None)))) \<and>
         (\<forall>h. fst r = Returns (Some h) \<longrightarrow> S = [pci h]))"
    unfolding Let_def S_def [symmetric] r_def [symmetric] S'_def [symmetric] r'_def [symmetric]
    using p1 p2 p3 q1 q2 q3 q4 by blast
qed

text \<open>
  On a bus with the one whitelisted card both resolvers return it, the second as the
  enabled handle; on an empty bus and on a bus with the card at two functions both
  return the null pointer with the message of the case.
\<close>

theorem resolution_policy_witness:
  "fst (pcidev_init platform64 bus_one whitelist 0x10 world0) = Some card \<and>
   fst (pcidev_init platform64 (bus_one\<lparr>scan_bus := []\<rparr>) whitelist 0x10 world0) = None \<and>
   last (trace (snd (pcidev_init platform64 (bus_one\<lparr>scan_bus := []\<rparr>) whitelist 0x10 world0))) =
     Msg Perr No_supported_device \<and>
   fst (pcidev_init platform64 (bus_one\<lparr>scan_bus := [card, card\<lparr>func := 1\<rparr>]\<rparr>) whitelist 0x10
          world0) = None \<and>
   last (trace (snd (pcidev_init platform64 (bus_one\<lparr>scan_bus := [card, card\<lparr>func := 1\<rparr>]\<rparr>)
                       whitelist 0x10 world0))) =
     Msg Perr Multiple_devices_use_bdf_filter \<and>
   fst (flashrom_pci_init bus_one kernel_ok match_list world0) =
     Returns (Some (fresh_handle\<lparr>enabled := True, was_disabled := True\<rparr>)) \<and>
   fst (flashrom_pci_init (bus_one\<lparr>scan_bus := []\<rparr>) kernel_ok match_list world0) =
     Returns None \<and>
   fst (flashrom_pci_init (bus_one\<lparr>scan_bus := [card, card\<lparr>func := 1\<rparr>]\<rparr>) kernel_ok
          match_list world0) = Returns None"
proof -
  have pre: "pacc world0 = None" "register_shutdown bus_one Pcidev_shutdown = 0"
    "filter_by_bdf bus_one = (None, pci_filter_init)"
    "register_shutdown (bus_one\<lparr>scan_bus := []\<rparr>) Pcidev_shutdown = 0"
    "filter_by_bdf (bus_one\<lparr>scan_bus := []\<rparr>) = (None, pci_filter_init)"
    "register_shutdown (bus_one\<lparr>scan_bus := [card, card\<lparr>func := 1\<rparr>]\<rparr>) Pcidev_shutdown = 0"
    "filter_by_bdf (bus_one\<lparr>scan_bus := [card, card\<lparr>func := 1\<rparr>]\<rparr>) = (None, pci_filter_init)"
    by (simp_all add: world0_def bus_one_def filter_by_bdf_def)
  have f: "pci_filter_match pci_filter_init card"
    "pci_filter_match pci_filter_init (card\<lparr>func := 1\<rparr>)"
    by (simp_all add: pci_filter_match_def pci_filter_init_def)
  have l: "on_whitelist whitelist card" "on_whitelist whitelist (card\<lparr>func := 1\<rparr>)"
    "on_match_list match_list card" "on_match_list match_list (card\<lparr>func := 1\<rparr>)"
    by (simp_all add: on_whitelist_def on_match_list_def whitelist_def match_list_def card_def)
  have z: "fst (pcidev_readbar platform64 card 0x10) \<noteq> 0"
    "fst (pcidev_readbar platform64 (card\<lparr>func := 1\<rparr>) 0x10) \<noteq> 0"
    by (simp_all add: pcidev_readbar_def sanity_checks_def mem_or_io_def card_def
        platform64_def to_uintptr_def pci_header_defs Let_def)
  have s: "survivors_bar platform64 pci_filter_init whitelist 0x10 [card] = [card]"
    "survivors_bar platform64 pci_filter_init whitelist 0x10 [card, card\<lparr>func := 1\<rparr>] =
       [card, card\<lparr>func := 1\<rparr>]"
    "survivors pci_filter_init match_list [card] = [card]"
    "survivors pci_filter_init match_list [card, card\<lparr>func := 1\<rparr>] = [card, card\<lparr>func := 1\<rparr>]"
    by (simp_all add: survivors_bar_def survivors_def f l z)
  have b: "scan_bus bus_one = [card]" "pci_lookup_name bus_one = (\<lambda>v d. Some ''Tahiti'')"
    by (simp_all add: bus_one_def)
  have m: "check_match match_list card =
      Some \<lparr>vendor_id = 0x1002, device_id = 0x6798, status = OK, private_v = 0\<rparr>"
    by (simp add: match_list_def card_def)
  have h: "resolved_handle card
      \<lparr>vendor_id = 0x1002, device_id = 0x6798, status = OK, private_v = 0\<rparr> ''Tahiti'' =
      fresh_handle"
    by (simp add: resolved_handle_def fresh_handle_def card_def)
  have e: "flashrom_pci_device_enable kernel_ok fresh_handle world0 =
      (0, fresh_handle\<lparr>enabled := True, was_disabled := True\<rparr>,
       world0\<lparr>enable_flag := CHR ''1'',
         trace := [Sys_open Enable_file, Sys_read, Sys_write CHR ''1'', Sys_close]\<rparr>)"
    by (simp add: flashrom_pci_device_enable_def fresh_handle_def kernel_ok_def world0_def
        sys_defs Let_def)
  show ?thesis
    using resolution_policy [of world0 bus_one pci_filter_init platform64 whitelist "0x10"
        match_list kernel_ok]
      resolution_policy [of world0 "bus_one\<lparr>scan_bus := []\<rparr>" pci_filter_init platform64
        whitelist "0x10" match_list kernel_ok]
      resolution_policy [of world0 "bus_one\<lparr>scan_bus := [card, card\<lparr>func := 1\<rparr>]\<rparr>"
        pci_filter_init platform64 whitelist "0x10" match_list kernel_ok]
      pre
    by (simp add: Let_def s b m h e survivors_bar_Nil survivors_Nil)
qed

text \<open>
  Claim C1 as stated makes one survivor sufficient for a device to be returned. With
  the one card on the bus, listed and unfiltered, and a kernel that refuses to open the
  enable file, \<open>flashrom_pci_init\<close> returns the null pointer, and the last message is
  the failed open, not one of the two resolution messages.
\<close>

theorem single_survivor_enable_fails:
  "pacc world0 = None \<and> register_shutdown bus_one Pcidev_shutdown = 0 \<and>
   filter_by_bdf bus_one = (None, pci_filter_init) \<and>
   survivors pci_filter_init match_list (scan_bus bus_one) = [card] \<and>
   fst (flashrom_pci_init bus_one kernel_open_fails match_list world0) = Returns None \<and>
   last (trace (snd (flashrom_pci_init bus_one kernel_open_fails match_list world0))) =
     Msg Perr Open_failed"
  by (simp add: flashrom_pci_init_def pci_init_common_def filter_by_bdf_def devices_def
      survivors_def on_match_list_def pci_filter_match_def pci_filter_init_def
      flashrom_pci_device_enable_def bus_one_def match_list_def world0_def
      kernel_open_fails_def kernel_ok_def card_def sys_defs errno_defs Let_def)

end
